theory Spec2Isabelle
  imports Complex_Main
begin

section \<open>The PsychoPy example of Parselmouth: per-trial stimulus synthesis\<close>

text \<open>
  The program is the notebook \<^verbatim>\<open>docs/examples/psychopy_experiments.ipynb\<close>: a
  \<^emph>\<open>Begin Experiment\<close> cell that loads and normalises the reference recordings, a
  \<^emph>\<open>Begin Routine\<close> cell that builds one noisy stimulus per trial, and an
  \<^emph>\<open>End Routine\<close> cell that reports the participant's answer. The cells call
  Parselmouth's \<^verbatim>\<open>Sound\<close> class, numpy and Python's \<^verbatim>\<open>random\<close> module.

  Samples are IEEE doubles in the program. The model computes with real numbers, so
  rounding, overflow and NaN are outside it. Sounds are mono, as the sounds the notebook
  builds from a one-dimensional array are.
\<close>

subsection \<open>Errors and sounds\<close>

text \<open>
  The Python exceptions the cells can raise, and the errors the specification names:
  \<open>SilentBufferError\<close> for measuring a buffer of no energy, \<open>FileNotFoundError\<close>
  for loading a missing file, \<open>IOWriteError\<close> for saving to a path that cannot be
  written, and the two errors of the specification's mixing step, which no statement of
  the notebook raises.
\<close>

datatype error =
    IndexError
  | KeyError
  | NameError
  | AttributeError
  | ValueError
  | FileNotFoundError
  | SilentBufferError
  | IOWriteError
  | SampleRateMismatchError
  | LengthMismatchError

text \<open>A \<^verbatim>\<open>parselmouth.Sound\<close>: its row of samples and its sampling frequency in Hz.\<close>

record sound =
  samples :: "real list"
  sampling_frequency :: real

definition n_samples :: "sound \<Rightarrow> nat" where
  "n_samples s = length (samples s)"

subsection \<open>Intensity measurement and scaling\<close>

text \<open>
  Modelled from the spec: the sum of the squared samples, the energy that
  \<open>measureIntensity\<close> (section 4.2) averages; the library code behind
  \<^verbatim>\<open>Sound.scale_intensity\<close> is not part of the notebook.
\<close>

definition sum_squares :: "real list \<Rightarrow> real" where
  "sum_squares xs = sum_list (map (\<lambda>x. x * x) xs)"

text \<open>
  Modelled from the spec: the root-mean-square amplitude over all samples that
  \<open>measureIntensity\<close> (section 4.2) converts to decibels; the library code is not part
  of the notebook. For a buffer without samples the mean is \<open>0 / 0\<close>, which is \<open>0\<close>
  in HOL: such a buffer counts as silent.
\<close>

definition rms :: "real list \<Rightarrow> real" where
  "rms xs = sqrt (sum_squares xs / real (length xs))"

text \<open>
  Modelled from the spec: \<open>measureIntensity\<close> (section 4.2), the intensity in dB of the
  RMS amplitude relative to a fixed reference pressure, failing with
  \<open>SilentBufferError\<close> when the RMS is exactly zero. The library code is not part of
  the notebook. The specification fixes no value for the reference pressure: it is the
  parameter \<open>p0\<close>.
\<close>

definition measureIntensity :: "real \<Rightarrow> sound \<Rightarrow> error + real" where
  "measureIntensity p0 buffer =
     (if rms (samples buffer) = 0 then Inl SilentBufferError
      else Inr (20 * log 10 (rms (samples buffer) / p0)))"

text \<open>
  Modelled from the spec: \<open>scaleToIntensity\<close> (section 4.2), what
  \<^verbatim>\<open>Sound.scale_intensity\<close> computes: every sample multiplied by
  \<open>10 ^ ((targetDb - measureIntensity buffer) / 20)\<close>, the sampling frequency kept.
  The library code is not part of the notebook.
\<close>

definition scaleToIntensity :: "real \<Rightarrow> sound \<Rightarrow> real \<Rightarrow> error + sound" where
  "scaleToIntensity p0 buffer targetDb =
     (case measureIntensity p0 buffer of
        Inl e \<Rightarrow> Inl e
      | Inr current \<Rightarrow>
          Inr (buffer\<lparr>samples :=
                 map (\<lambda>x. x * 10 powr ((targetDb - current) / 20)) (samples buffer)\<rparr>))"

subsection \<open>Output file names\<close>

text \<open>
  Line 170 of the notebook:
  \<^verbatim>\<open>stimulus_file_name = filename + "_stimulus_" + str(trials.thisTrialN) + ".wav"\<close>
  Python's \<^verbatim>\<open>str\<close> on an \<^verbatim>\<open>int\<close> gives the decimal digits, most significant
  first, with a leading minus sign for a negative number.
\<close>

definition digit_char :: "nat \<Rightarrow> char" where
  "digit_char d = char_of (48 + d)"

function str_nat :: "nat \<Rightarrow> string" where
  "str_nat n = (if n < 10 then [digit_char n] else str_nat (n div 10) @ [digit_char (n mod 10)])"
  by pat_completeness auto
termination
  by (relation "measure (\<lambda>n. n)") auto

definition str_int :: "int \<Rightarrow> string" where
  "str_int i = (if i < 0 then CHR ''-'' # str_nat (nat (- i)) else str_nat (nat i))"

definition buildPath :: "string \<Rightarrow> int \<Rightarrow> string" where
  "buildPath baseName trialIndex = baseName @ ''_stimulus_'' @ str_int trialIndex @ ''.wav''"

text \<open>Reading a decimal numeral back, used to show that \<open>str_nat\<close> loses nothing.\<close>

definition digit_val :: "char \<Rightarrow> nat" where
  "digit_val c = of_char c - 48"

definition decimal_val :: "string \<Rightarrow> nat" where
  "decimal_val s = foldl (\<lambda>a c. 10 * a + digit_val c) 0 s"

subsection \<open>Random sources\<close>

text \<open>
  The notebook draws from two module-level generators: Python's \<^verbatim>\<open>random\<close> (line
  159) and numpy's \<^verbatim>\<open>np.random\<close> (line 162). The state of a generator is
  represented by the sequence of values it is going to deliver; drawing takes values
  from the front.

  \<^verbatim>\<open>random.choice(seq)\<close> raises \<^verbatim>\<open>IndexError\<close> on an empty sequence and
  otherwise returns the element at a random index below \<^verbatim>\<open>len(seq)\<close>.
\<close>

definition random_choice :: "'a list \<Rightarrow> (nat \<Rightarrow> nat) \<Rightarrow> error + ('a \<times> (nat \<Rightarrow> nat))" where
  "random_choice seq g =
     (if seq = [] then Inl IndexError
      else Inr (seq ! (g 0 mod length seq), \<lambda>i. g (Suc i)))"

text \<open>\<^verbatim>\<open>np.random.normal(size=n)\<close>: the next \<open>n\<close> draws of numpy's global generator.\<close>

definition np_random_normal :: "nat \<Rightarrow> (nat \<Rightarrow> real) \<Rightarrow> real list \<times> (nat \<Rightarrow> real)" where
  "np_random_normal n g = (map g [0..<n], \<lambda>i. g (i + n))"

subsection \<open>Program state\<close>

text \<open>
  Sound objects live in a store, so that two names for one object (line 160 makes
  \<^verbatim>\<open>random_stimulus\<close> an alias of a library entry) are told apart from two equal
  objects. \<open>next_addr\<close> is the address the next new object gets. The other fields are
  the notebook's module-level variables; a variable a cell assigns before its first use
  is \<open>None\<close> while unbound. \<open>files\<close> maps a path to the sound stored there,
  \<open>writable\<close> tells which paths a file can be written to (the notebook creates the
  directory \<^verbatim>\<open>data\<close> for that), \<open>stdout\<close> collects the printed lines, and
  \<open>responses\<close> the values handed to \<^verbatim>\<open>trials.addResponse\<close>, in order.
\<close>

type_synonym addr = nat

record state =
  heap :: "addr \<rightharpoonup> sound"
  next_addr :: addr
  conditions :: "string list"
  stimulus_files :: "string \<rightharpoonup> string"
  stimuli :: "string \<rightharpoonup> addr"
  level :: real
  filename :: string
  thisTrialN :: int
  key_resp_2_keys :: "string option"
  stimulus :: "addr option"
  random_condition :: "string option"
  random_stimulus :: "addr option"
  noise_samples :: "real list option"
  noisy_stimulus :: "addr option"
  stimulus_file_name :: "string option"
  py_random :: "nat \<Rightarrow> nat"
  np_random :: "nat \<Rightarrow> real"
  files :: "string \<rightharpoonup> sound"
  writable :: "string \<Rightarrow> bool"
  stdout :: "string list"
  responses :: "bool list"

definition STANDARD_INTENSITY :: real where
  "STANDARD_INTENSITY = 70"

text \<open>
  A cell is a list of statements. A statement either completes with a new state or
  raises; a raised exception ends the cell, and what the earlier statements did stays.
\<close>

type_synonym stmt = "state \<Rightarrow> error + state"

fun exec :: "stmt list \<Rightarrow> state \<Rightarrow> error option \<times> state" where
  "exec [] st = (None, st)"
| "exec (s # ss) st = (case s st of Inl e \<Rightarrow> (Some e, st) | Inr st' \<Rightarrow> exec ss st')"

text \<open>
  Reading the object a variable names. Python has no dangling references; a name bound
  to an address without an object is treated like an unbound name.
\<close>

definition deref :: "state \<Rightarrow> addr option \<Rightarrow> error + (addr \<times> sound)" where
  "deref st v =
     (case v of
        None \<Rightarrow> Inl NameError
      | Some a \<Rightarrow> (case heap st a of None \<Rightarrow> Inl NameError | Some s \<Rightarrow> Inr (a, s)))"

text \<open>
  \<^verbatim>\<open>snd.scale_intensity(target)\<close> rescales the receiver in place: the object at the
  receiver's address is replaced by the one \<open>scaleToIntensity\<close> computes from it.
\<close>

definition scale_intensity :: "real \<Rightarrow> addr option \<Rightarrow> real \<Rightarrow> stmt" where
  "scale_intensity p0 v target st =
     (case deref st v of
        Inl e \<Rightarrow> Inl e
      | Inr (a, s) \<Rightarrow>
          (case scaleToIntensity p0 s target of
             Inl e \<Rightarrow> Inl e
           | Inr s' \<Rightarrow> Inr (st\<lparr>heap := (heap st)(a \<mapsto> s')\<rparr>)))"

text \<open>
  \<^verbatim>\<open>xs += ys\<close> on numpy rows: element-wise when the lengths agree, a single
  element on the right is broadcast, anything else raises \<^verbatim>\<open>ValueError\<close>. Sampling
  frequencies are not part of the arrays.
\<close>

definition iadd :: "real list \<Rightarrow> real list \<Rightarrow> error + real list" where
  "iadd xs ys =
     (if length ys = length xs then Inr (map2 (+) xs ys)
      else (case ys of [y] \<Rightarrow> Inr (map (\<lambda>x. x + y) xs) | _ \<Rightarrow> Inl ValueError))"

text \<open>
  Line 166 on two sounds: \<^verbatim>\<open>a.values += b.values\<close> writes the sums into \<open>a\<close> and
  leaves everything else of \<open>a\<close>, and all of \<open>b\<close>, as it is.
\<close>

definition add_values :: "sound \<Rightarrow> sound \<Rightarrow> error + sound" where
  "add_values a b =
     (case iadd (samples a) (samples b) of
        Inl e \<Rightarrow> Inl e
      | Inr zs \<Rightarrow> Inr (a\<lparr>samples := zs\<rparr>))"

subsection \<open>Begin Experiment\<close>

text \<open>
  Line 72: \<^verbatim>\<open>stimulus = parselmouth.Sound(stimulus_files[condition])\<close>
  Loading makes a new object from the sound stored under the path. The decoder is not
  part of the notebook; a missing file is the specification's \<open>FileNotFoundError\<close>.
\<close>

definition load_sound :: "string \<Rightarrow> stmt" where
  "load_sound condition st =
     (case stimulus_files st condition of
        None \<Rightarrow> Inl KeyError
      | Some path \<Rightarrow>
          (case files st path of
             None \<Rightarrow> Inl FileNotFoundError
           | Some s \<Rightarrow>
               Inr (st\<lparr>heap := (heap st)(next_addr st \<mapsto> s),
                        next_addr := Suc (next_addr st),
                        stimulus := Some (next_addr st)\<rparr>)))"

text \<open>Line 73: \<^verbatim>\<open>stimulus.scale_intensity(STANDARD_INTENSITY)\<close>\<close>

definition normalize_stimulus :: "real \<Rightarrow> stmt" where
  "normalize_stimulus p0 st = scale_intensity p0 (stimulus st) STANDARD_INTENSITY st"

text \<open>Line 74: \<^verbatim>\<open>stimuli[condition] = stimulus\<close>\<close>

definition store_stimulus :: "string \<Rightarrow> stmt" where
  "store_stimulus condition st =
     (case stimulus st of
        None \<Rightarrow> Inl NameError
      | Some a \<Rightarrow> Inr (st\<lparr>stimuli := (stimuli st)(condition \<mapsto> a)\<rparr>))"

text \<open>Lines 71-74: the loop over the conditions.\<close>

fun for_conditions :: "real \<Rightarrow> string list \<Rightarrow> state \<Rightarrow> error option \<times> state" where
  "for_conditions p0 [] st = (None, st)"
| "for_conditions p0 (condition # rest) st =
     (case exec [load_sound condition, normalize_stimulus p0, store_stimulus condition] st of
        (Some e, st') \<Rightarrow> (Some e, st')
      | (None, st') \<Rightarrow> for_conditions p0 rest st')"

text \<open>Lines 66-74: the constants, the empty library, then the loop.\<close>

definition begin_experiment :: "real \<Rightarrow> state \<Rightarrow> error option \<times> state" where
  "begin_experiment p0 st =
     (let st0 = st\<lparr>conditions := [''a'', ''e''],
                   stimulus_files := [''a'' \<mapsto> ''audio/bat.wav'', ''e'' \<mapsto> ''audio/bet.wav''],
                   stimuli := Map.empty\<rparr>
      in for_conditions p0 (conditions st0) st0)"

subsection \<open>Begin Routine\<close>

text \<open>Line 159: \<^verbatim>\<open>random_condition = random.choice(conditions)\<close>\<close>

definition choose_condition :: stmt where
  "choose_condition st =
     (case random_choice (conditions st) (py_random st) of
        Inl e \<Rightarrow> Inl e
      | Inr (c, g) \<Rightarrow> Inr (st\<lparr>random_condition := Some c, py_random := g\<rparr>))"

text \<open>Line 160: \<^verbatim>\<open>random_stimulus = stimuli[random_condition]\<close>\<close>

definition lookup_stimulus :: stmt where
  "lookup_stimulus st =
     (case random_condition st of
        None \<Rightarrow> Inl NameError
      | Some c \<Rightarrow>
          (case stimuli st c of
             None \<Rightarrow> Inl KeyError
           | Some r \<Rightarrow> Inr (st\<lparr>random_stimulus := Some r\<rparr>)))"

text \<open>Line 162: \<^verbatim>\<open>noise_samples = np.random.normal(size=random_stimulus.n_samples)\<close>\<close>

definition draw_noise :: stmt where
  "draw_noise st =
     (case deref st (random_stimulus st) of
        Inl e \<Rightarrow> Inl e
      | Inr (r, R) \<Rightarrow>
          (case np_random_normal (n_samples R) (np_random st) of
             (xs, g) \<Rightarrow> Inr (st\<lparr>noise_samples := Some xs, np_random := g\<rparr>)))"

text \<open>
  Lines 163-164:
  \<^verbatim>\<open>noisy_stimulus = parselmouth.Sound(noise_samples, sampling_frequency=random_stimulus.sampling_frequency)\<close>
  The constructor copies the array into a new object.
\<close>

definition new_noisy_stimulus :: stmt where
  "new_noisy_stimulus st =
     (case noise_samples st of
        None \<Rightarrow> Inl NameError
      | Some xs \<Rightarrow>
          (case deref st (random_stimulus st) of
             Inl e \<Rightarrow> Inl e
           | Inr (r, R) \<Rightarrow>
               Inr (st\<lparr>heap := (heap st)(next_addr st \<mapsto>
                            \<lparr>samples = xs, sampling_frequency = sampling_frequency R\<rparr>),
                        next_addr := Suc (next_addr st),
                        noisy_stimulus := Some (next_addr st)\<rparr>)))"

text \<open>Line 165: \<^verbatim>\<open>noisy_stimulus.scale_intensity(STANDARD_INTENSITY - level)\<close>\<close>

definition scale_noise :: "real \<Rightarrow> stmt" where
  "scale_noise p0 st =
     scale_intensity p0 (noisy_stimulus st) (STANDARD_INTENSITY - level st) st"

text \<open>Line 166: \<^verbatim>\<open>noisy_stimulus.values += random_stimulus.values\<close>\<close>

definition add_reference :: stmt where
  "add_reference st =
     (case deref st (noisy_stimulus st) of
        Inl e \<Rightarrow> Inl e
      | Inr (a, N) \<Rightarrow>
          (case deref st (random_stimulus st) of
             Inl e \<Rightarrow> Inl e
           | Inr (r, R) \<Rightarrow>
               (case add_values N R of
                  Inl e \<Rightarrow> Inl e
                | Inr M \<Rightarrow> Inr (st\<lparr>heap := (heap st)(a \<mapsto> M)\<rparr>))))"

text \<open>Line 167: \<^verbatim>\<open>noisy_stimulus.scale_intensity(STANDARD_INTENSITY)\<close>\<close>

definition renormalize :: "real \<Rightarrow> stmt" where
  "renormalize p0 st = scale_intensity p0 (noisy_stimulus st) STANDARD_INTENSITY st"

text \<open>Line 170, the file name of the trial.\<close>

definition name_file :: stmt where
  "name_file st =
     Inr (st\<lparr>stimulus_file_name := Some (buildPath (filename st) (thisTrialN st))\<rparr>)"

text \<open>
  Line 171: \<^verbatim>\<open>noisy_stimulus.resample(44100).save(stimulus_file_name, 'WAV')\<close>
  Parselmouth's resampling is not part of the notebook: it is the parameter
  \<open>resample\<close>, a function from a sound and a rate to a new sound. Neither is the
  encoder: as in section 4.1 of the specification, saving to a path that cannot be
  written fails with \<open>IOWriteError\<close>, and otherwise the resampled sound is stored under
  the path.
\<close>

definition save_resampled :: "(sound \<Rightarrow> real \<Rightarrow> sound) \<Rightarrow> stmt" where
  "save_resampled resample st =
     (case deref st (noisy_stimulus st) of
        Inl e \<Rightarrow> Inl e
      | Inr (a, M) \<Rightarrow>
          (case stimulus_file_name st of
             None \<Rightarrow> Inl NameError
           | Some f \<Rightarrow>
               (if writable st f then Inr (st\<lparr>files := (files st)(f \<mapsto> resample M 44100)\<rparr>)
                else Inl IOWriteError)))"

text \<open>Line 172: \<^verbatim>\<open>sound_1.setSound(stimulus_file_name)\<close>, which prints a line.\<close>

definition set_sound :: stmt where
  "set_sound st =
     (case stimulus_file_name st of
        None \<Rightarrow> Inl NameError
      | Some f \<Rightarrow>
          Inr (st\<lparr>stdout := stdout st @
                  [''Setting audio file of Sound component to '' @ [CHR 0x27] @ f @ [CHR 0x27]]\<rparr>))"

text \<open>
  Lines 162-167 are the synthesis proper, \<open>synthesize\<close> in the specification: the
  reference is the object \<^verbatim>\<open>random_stimulus\<close> names, the level is \<^verbatim>\<open>level\<close>, the
  standard intensity is \<open>STANDARD_INTENSITY\<close> and the random source is numpy's
  generator.
\<close>

definition synthesize :: "real \<Rightarrow> stmt list" where
  "synthesize p0 =
     [draw_noise, new_noisy_stimulus, scale_noise p0, add_reference, renormalize p0]"

definition begin_routine :: "real \<Rightarrow> (sound \<Rightarrow> real \<Rightarrow> sound) \<Rightarrow> state \<Rightarrow> error option \<times> state" where
  "begin_routine p0 resample =
     exec ([choose_condition, lookup_stimulus] @ synthesize p0 @
           [name_file, save_resampled resample, set_sound])"

text \<open>
  The sound the trial produced: the object \<^verbatim>\<open>noisy_stimulus\<close> names after the cell.
\<close>

definition output_buffer :: "state \<Rightarrow> sound option" where
  "output_buffer st = Option.bind (noisy_stimulus st) (heap st)"

subsection \<open>End Routine\<close>

text \<open>
  \<^verbatim>\<open>MockTrials.addResponse(response)\<close> prints whether the trial was successful; the
  handler it stands for receives the boolean.
\<close>

definition addResponse :: "bool \<Rightarrow> state \<Rightarrow> state" where
  "addResponse response st =
     st\<lparr>stdout := stdout st @
           [''Registering that this trial was '' @ (if response then [] else ''un'') @
            ''successful''],
        responses := responses st @ [response]\<rparr>"

text \<open>
  Line 223: \<^verbatim>\<open>trials.addResponse(key_resp_2.keys == random_condition)\<close>
  The mock keyboard has no attribute \<^verbatim>\<open>keys\<close> until a key is stored.
\<close>

definition report_response :: stmt where
  "report_response st =
     (case key_resp_2_keys st of
        None \<Rightarrow> Inl AttributeError
      | Some k \<Rightarrow>
          (case random_condition st of
             None \<Rightarrow> Inl NameError
           | Some c \<Rightarrow> Inr (addResponse (k = c) st)))"

definition end_routine :: "state \<Rightarrow> error option \<times> state" where
  "end_routine = exec [report_response]"

subsection \<open>Seeding\<close>

text \<open>
  Line 131: \<^verbatim>\<open>random.seed(42)\<close> sets the state of Python's generator to the one the
  seed determines; \<open>prng\<close> is the generator's function from seeds to sequences.
  numpy's generator is a different object and is not touched.
\<close>

definition random_seed :: "(nat \<Rightarrow> nat \<Rightarrow> nat) \<Rightarrow> nat \<Rightarrow> state \<Rightarrow> state" where
  "random_seed prng a st = st\<lparr>py_random := prng a\<rparr>"

subsection \<open>The synthesis as the specification words it\<close>


text \<open>
  Section 4.4, step 4: sample-wise addition of two buffers of identical rate and length;
  a different rate is \<open>SampleRateMismatchError\<close>, a different length
  \<open>LengthMismatchError\<close>.
\<close>

definition mix_spec :: "sound \<Rightarrow> sound \<Rightarrow> error + sound" where
  "mix_spec R N =
     (if sampling_frequency R \<noteq> sampling_frequency N then Inl SampleRateMismatchError
      else if length (samples R) \<noteq> length (samples N) then Inl LengthMismatchError
      else Inr \<lparr>samples = map2 (+) (samples R) (samples N),
                sampling_frequency = sampling_frequency R\<rparr>)"


subsection \<open>Well-formed stores\<close>

text \<open>
  Every object was allocated, so its address lies below \<open>next_addr\<close>; and every
  library entry names an object.
\<close>

definition heap_ok :: "state \<Rightarrow> bool" where
  "heap_ok st \<longleftrightarrow> dom (heap st) \<subseteq> {..<next_addr st}"

definition library_ok :: "state \<Rightarrow> bool" where
  "library_ok st \<longleftrightarrow> ran (stimuli st) \<subseteq> dom (heap st)"

text \<open>Every library entry is at the standard intensity.\<close>

definition library_normalized :: "real \<Rightarrow> state \<Rightarrow> bool" where
  "library_normalized p0 st \<longleftrightarrow>
     (\<forall>c r R. stimuli st c = Some r \<longrightarrow> heap st r = Some R \<longrightarrow>
        measureIntensity p0 R = Inr STANDARD_INTENSITY)"

subsection \<open>An example state\<close>

text \<open>
  The state of the notebook when the first trial begins, with two short recordings in
  the library, both at 70 dB relative to the reference pressure 1. The level, the file
  name and the trial number are the ones the notebook sets.
\<close>

definition example_state :: state where
  "example_state =
     \<lparr>heap = [0 \<mapsto> \<lparr>samples = [10 powr (7 / 2), - (10 powr (7 / 2))], sampling_frequency = 22050\<rparr>,
             1 \<mapsto> \<lparr>samples = [- (10 powr (7 / 2)), 10 powr (7 / 2)], sampling_frequency = 22050\<rparr>],
      next_addr = 2,
      conditions = [''a'', ''e''],
      stimulus_files = [''a'' \<mapsto> ''audio/bat.wav'', ''e'' \<mapsto> ''audio/bet.wav''],
      stimuli = [''a'' \<mapsto> 0, ''e'' \<mapsto> 1],
      level = 10,
      filename = ''data/participant_staircase_23032017'',
      thisTrialN = 5,
      key_resp_2_keys = None,
      stimulus = Some 1,
      random_condition = None,
      random_stimulus = None,
      noise_samples = None,
      noisy_stimulus = None,
      stimulus_file_name = None,
      py_random = (\<lambda>i. 0),
      np_random = (\<lambda>i. 1),
      files = Map.empty,
      writable = (\<lambda>path. True),
      stdout = [],
      responses = []\<rparr>"

text \<open>
  The same state in another process: numpy's generator, which nothing seeds, is going to
  deliver other draws. And a generator for Python's \<^verbatim>\<open>random\<close>, for the examples.
\<close>

definition example_state_other :: state where
  "example_state_other = example_state\<lparr>np_random := (\<lambda>i. if i = 1 then - 1 else 1)\<rparr>"

definition example_prng :: "nat \<Rightarrow> nat \<Rightarrow> nat" where
  "example_prng a i = a + i"

text \<open>A resampler for the examples: it only retags the sound with the new rate.\<close>

definition example_resample :: "sound \<Rightarrow> real \<Rightarrow> sound" where
  "example_resample s rate = s\<lparr>sampling_frequency := rate\<rparr>"


section \<open>Properties\<close>

subsection \<open>File names\<close>

lemma digit_val_digit_char: "d < 10 \<Longrightarrow> digit_val (digit_char d) = d"
  by (simp add: digit_val_def digit_char_def)

lemma digit_char_not_minus: "d < 10 \<Longrightarrow> digit_char d \<noteq> CHR ''-''"
proof
  assume d: "d < 10" and eq: "digit_char d = CHR ''-''"
  have "of_char (digit_char d) = (48 + d :: nat)"
    using d by (simp add: digit_char_def)
  moreover have "of_char (CHR ''-'') = (45 :: nat)"
    by simp
  ultimately show False
    using eq by simp
qed

lemma decimal_val_snoc: "decimal_val (s @ [c]) = 10 * decimal_val s + digit_val c"
  by (simp add: decimal_val_def)

lemma decimal_val_str_nat: "decimal_val (str_nat n) = n"
proof (induction n rule: str_nat.induct)
  case (1 n)
  show ?case
  proof (cases "n < 10")
    case True
    then show ?thesis
      by (simp add: decimal_val_def digit_val_digit_char)
  next
    case False
    then have "decimal_val (str_nat n) =
        10 * decimal_val (str_nat (n div 10)) + digit_val (digit_char (n mod 10))"
      by (subst str_nat.simps) (simp add: decimal_val_snoc)
    also have "\<dots> = 10 * (n div 10) + n mod 10"
      using False "1.IH" by (simp add: digit_val_digit_char)
    finally show ?thesis
      by simp
  qed
qed

lemma str_nat_inj: "str_nat m = str_nat n \<Longrightarrow> m = n"
  by (metis decimal_val_str_nat)

lemma str_nat_hd_not_minus: "\<exists>c cs. str_nat n = c # cs \<and> c \<noteq> CHR ''-''"
proof (induction n rule: str_nat.induct)
  case (1 n)
  show ?case
  proof (cases "n < 10")
    case True
    then show ?thesis
      by (simp add: digit_char_not_minus)
  next
    case False
    with "1.IH" obtain c cs where "str_nat (n div 10) = c # cs" "c \<noteq> CHR ''-''"
      by blast
    with False show ?thesis
      by (subst str_nat.simps) simp
  qed
qed

lemma str_int_inj: "str_int i = str_int j \<Longrightarrow> i = j"
proof -
  assume eq: "str_int i = str_int j"
  consider "i < 0" "j < 0" | "0 \<le> i" "0 \<le> j" | "i < 0" "0 \<le> j" | "0 \<le> i" "j < 0"
    by linarith
  then show "i = j"
  proof cases
    case 1
    with eq have "nat (- i) = nat (- j)"
      by (simp add: str_int_def str_nat_inj)
    with 1 show ?thesis by simp
  next
    case 2
    with eq have "nat i = nat j"
      by (simp add: str_int_def str_nat_inj)
    with 2 show ?thesis by simp
  next
    case 3
    obtain c cs where "str_nat (nat j) = c # cs" "c \<noteq> CHR ''-''"
      using str_nat_hd_not_minus by blast
    with 3 eq show ?thesis
      by (simp add: str_int_def)
  next
    case 4
    obtain c cs where "str_nat (nat i) = c # cs" "c \<noteq> CHR ''-''"
      using str_nat_hd_not_minus by blast
    with 4 eq show ?thesis
      by (simp add: str_int_def)
  qed
qed

text \<open>
  Claim C6. \<open>buildPath\<close> is a pure function of its two arguments: it returns the base
  name followed by \<^verbatim>\<open>_stimulus_\<close>, the decimal rendering of the trial index and
  \<^verbatim>\<open>.wav\<close>; for one base name two paths are equal exactly when the trial indices are
  equal, so distinct indices never collide and equal arguments give equal paths.
\<close>

theorem buildPath_unique:
  "buildPath baseName i = baseName @ ''_stimulus_'' @ str_int i @ ''.wav''
   \<and> (buildPath baseName i = buildPath baseName j) = (i = j)"
proof -
  have "i = j" if "buildPath baseName i = buildPath baseName j"
  proof -
    from that have "str_int i @ ''.wav'' = str_int j @ ''.wav''"
      unfolding buildPath_def by (simp only: same_append_eq)
    then have "str_int i = str_int j"
      by (simp only: append_same_eq)
    then show ?thesis
      by (rule str_int_inj)
  qed
  then show ?thesis
    by (auto simp: buildPath_def)
qed

theorem buildPath_unique_witness:
  "buildPath ''data/participant_staircase_23032017'' 5
     = ''data/participant_staircase_23032017_stimulus_5.wav''
   \<and> buildPath ''p1'' 3 \<noteq> buildPath ''p1'' 4"
proof -
  have "buildPath ''data/participant_staircase_23032017'' 5
     = ''data/participant_staircase_23032017_stimulus_5.wav''"
    by code_simp
  moreover have "buildPath ''p1'' 3 \<noteq> buildPath ''p1'' 4"
    using buildPath_unique [of "''p1''" 3 4, THEN conjunct2] by simp
  ultimately show ?thesis
    by (rule conjI)
qed

subsection \<open>Intensity\<close>

lemma sum_squares_nonneg: "0 \<le> sum_squares xs"
  unfolding sum_squares_def by (induction xs) simp_all

lemma sum_squares_zero_iff: "sum_squares xs = 0 \<longleftrightarrow> (\<forall>x\<in>set xs. x = 0)"
proof (induction xs)
  case Nil
  show ?case by (simp add: sum_squares_def)
next
  case (Cons x xs)
  have "sum_squares (x # xs) = x * x + sum_squares xs"
    by (simp add: sum_squares_def)
  moreover have "0 \<le> x * x" by simp
  moreover note sum_squares_nonneg [of xs]
  ultimately have "sum_squares (x # xs) = 0 \<longleftrightarrow> x * x = 0 \<and> sum_squares xs = 0"
    by (simp add: add_nonneg_eq_0_iff)
  with Cons.IH show ?case by simp
qed

lemma rms_nonneg: "0 \<le> rms xs"
  unfolding rms_def using sum_squares_nonneg [of xs] by simp

lemma rms_zero_iff: "rms xs = 0 \<longleftrightarrow> (\<forall>x\<in>set xs. x = 0)"
proof (cases "xs = []")
  case True
  then show ?thesis by (simp add: rms_def)
next
  case False
  then have "rms xs = 0 \<longleftrightarrow> sum_squares xs = 0"
    by (simp add: rms_def)
  then show ?thesis by (simp add: sum_squares_zero_iff)
qed

lemma sum_squares_scale: "sum_squares (map (\<lambda>x. x * f) xs) = f * f * sum_squares xs"
  unfolding sum_squares_def by (induction xs) (simp_all add: algebra_simps)

lemma rms_scale: "0 \<le> f \<Longrightarrow> rms (map (\<lambda>x. x * f) xs) = f * rms xs"
proof -
  assume f: "0 \<le> f"
  have "rms (map (\<lambda>x. x * f) xs) = sqrt (f * f * (sum_squares xs / real (length xs)))"
    by (simp add: rms_def sum_squares_scale)
  also have "\<dots> = sqrt (f * f) * sqrt (sum_squares xs / real (length xs))"
    by (rule real_sqrt_mult)
  also have "sqrt (f * f) = f"
    using f by simp
  finally show ?thesis by (simp add: rms_def)
qed

text \<open>The gain that takes a buffer of RMS \<open>r\<close> to the target intensity.\<close>

lemma measureIntensity_scaled:
  assumes p0: "0 < p0" and nz: "rms (samples B) \<noteq> 0"
  shows "measureIntensity p0
           (B\<lparr>samples := map (\<lambda>x. x * 10 powr ((t - 20 * log 10 (rms (samples B) / p0)) / 20))
                           (samples B)\<rparr>)
         = Inr t"
proof -
  define r where "r = rms (samples B)"
  define f where "f = 10 powr ((t - 20 * log 10 (r / p0)) / 20)"
  have r: "0 < r" using nz rms_nonneg [of "samples B"] by (simp add: r_def)
  have f: "0 < f" by (simp add: f_def)
  have rf: "rms (map (\<lambda>x. x * f) (samples B)) = f * r"
    using f by (simp add: rms_scale r_def)
  have rp: "0 < r / p0"
    using r p0 by simp
  have "log 10 (f * (r / p0)) = log 10 f + log 10 (r / p0)"
    by (rule log_mult_pos [OF f rp])
  then have "log 10 (f * r / p0) = log 10 f + log 10 (r / p0)"
    by simp
  also have "log 10 f = (t - 20 * log 10 (r / p0)) / 20"
    by (simp add: f_def)
  finally have "20 * log 10 (f * r / p0) = t" by (simp add: field_simps)
  moreover have "f * r \<noteq> 0" using f r by simp
  ultimately show ?thesis
    using rf by (simp add: measureIntensity_def f_def r_def)
qed

lemma scaleToIntensity_Inr:
  "rms (samples B) \<noteq> 0 \<Longrightarrow>
   scaleToIntensity p0 B t =
     Inr (B\<lparr>samples := map (\<lambda>x. x * 10 powr ((t - 20 * log 10 (rms (samples B) / p0)) / 20))
                          (samples B)\<rparr>)"
  by (simp add: scaleToIntensity_def measureIntensity_def)

lemma scaleToIntensity_Inl:
  "rms (samples B) = 0 \<Longrightarrow> scaleToIntensity p0 B t = Inl SilentBufferError"
  by (simp add: scaleToIntensity_def measureIntensity_def)

lemma scaleToIntensity_cases:
  "scaleToIntensity p0 B t = Inl e \<Longrightarrow> e = SilentBufferError \<and> rms (samples B) = 0"
  "scaleToIntensity p0 B t = Inr B' \<Longrightarrow>
     rms (samples B) \<noteq> 0 \<and> sampling_frequency B' = sampling_frequency B
     \<and> length (samples B') = length (samples B)"
  by (auto simp: scaleToIntensity_def measureIntensity_def split: if_splits)

lemma scaleToIntensity_measure:
  assumes "0 < p0" and "scaleToIntensity p0 B t = Inr B'"
  shows "measureIntensity p0 B' = Inr t"
proof -
  from assms(2) have nz: "rms (samples B) \<noteq> 0"
    by (simp add: scaleToIntensity_cases)
  with assms(2) have "B' = B\<lparr>samples :=
      map (\<lambda>x. x * 10 powr ((t - 20 * log 10 (rms (samples B) / p0)) / 20)) (samples B)\<rparr>"
    by (simp add: scaleToIntensity_Inr)
  then show ?thesis
    using measureIntensity_scaled [OF assms(1) nz] by simp
qed

text \<open>
  Claim C7. \<open>measureIntensity\<close> fails with \<open>SilentBufferError\<close> exactly when the RMS
  of the buffer is zero, which is exactly when every sample is zero; it fails in no other
  way, and a value it returns is the RMS in decibels relative to the reference
  pressure, so it returns no value for a buffer of no energy.
\<close>

theorem measureIntensity_silent:
  "(measureIntensity p0 B = Inl SilentBufferError) = (rms (samples B) = 0)
   \<and> (rms (samples B) = 0) = (\<forall>x\<in>set (samples B). x = 0)
   \<and> (\<forall>v. measureIntensity p0 B = Inr v \<longrightarrow>
        rms (samples B) \<noteq> 0 \<and> v = 20 * log 10 (rms (samples B) / p0))
   \<and> (\<forall>e. measureIntensity p0 B = Inl e \<longrightarrow> e = SilentBufferError)"
proof (intro conjI allI impI)
  show "(measureIntensity p0 B = Inl SilentBufferError) = (rms (samples B) = 0)"
    by (simp add: measureIntensity_def)
  show "(rms (samples B) = 0) = (\<forall>x\<in>set (samples B). x = 0)"
    by (rule rms_zero_iff)
next
  fix v assume "measureIntensity p0 B = Inr v"
  then show "rms (samples B) \<noteq> 0" "v = 20 * log 10 (rms (samples B) / p0)"
    by (auto simp: measureIntensity_def split: if_splits)
next
  fix e assume "measureIntensity p0 B = Inl e"
  then show "e = SilentBufferError"
    by (auto simp: measureIntensity_def split: if_splits)
qed

theorem measureIntensity_silent_witness:
  "measureIntensity 1 \<lparr>samples = [0, 0], sampling_frequency = 22050\<rparr> = Inl SilentBufferError
   \<and> measureIntensity 1 \<lparr>samples = [1, 1], sampling_frequency = 22050\<rparr> = Inr 0"
proof -
  have "measureIntensity 1 \<lparr>samples = [0, 0], sampling_frequency = 22050\<rparr> = Inl SilentBufferError"
    using measureIntensity_silent [of 1 "\<lparr>samples = [0, 0], sampling_frequency = 22050\<rparr>"]
    by simp
  moreover have "measureIntensity 1 \<lparr>samples = [1, 1], sampling_frequency = 22050\<rparr> = Inr 0"
    by (simp add: measureIntensity_def rms_def sum_squares_def)
  ultimately show ?thesis
    by (rule conjI)
qed

subsection \<open>Running a cell\<close>

lemma exec_Cons_None:
  "exec (s # ss) st = (None, st') \<longleftrightarrow> (\<exists>st1. s st = Inr st1 \<and> exec ss st1 = (None, st'))"
  by (auto split: sum.splits)

lemma exec_append:
  "exec (xs @ ys) st =
     (case exec xs st of (None, st1) \<Rightarrow> exec ys st1 | (Some e, st1) \<Rightarrow> (Some e, st1))"
  by (induction xs arbitrary: st) (auto split: sum.splits)

lemma exec_append_Cons:
  "exec (xs @ s # ys) st =
     (case exec xs st of
        (None, st1) \<Rightarrow> (case s st1 of Inl e \<Rightarrow> (Some e, st1) | Inr st2 \<Rightarrow> exec ys st2)
      | (Some e, st1) \<Rightarrow> (Some e, st1))"
  by (cases "exec xs st") (auto simp: exec_append split: option.splits)

lemma exec_invariant:
  assumes "P st" and "\<And>s a b. s \<in> set ss \<Longrightarrow> P a \<Longrightarrow> s a = Inr b \<Longrightarrow> P b"
  shows "P (snd (exec ss st))"
  using assms
proof (induction ss arbitrary: st)
  case Nil
  then show ?case by simp
next
  case (Cons s ss)
  show ?case
  proof (cases "s st")
    case (Inl e)
    with Cons.prems(1) show ?thesis by simp
  next
    case (Inr st1)
    with Cons.prems(1) Cons.prems(2) [of s st st1] have "P st1" by simp
    then have "P (snd (exec ss st1))"
      using Cons.prems(2) by (intro Cons.IH) auto
    with Inr show ?thesis by simp
  qed
qed

subsection \<open>What each statement does\<close>

lemma deref_Inr: "deref st v = Inr (a, s) \<longleftrightarrow> v = Some a \<and> heap st a = Some s"
  by (auto simp: deref_def split: option.splits)

lemma scale_intensity_Inr:
  "scale_intensity p0 v t st = Inr st' \<longleftrightarrow>
     (\<exists>a s s'. v = Some a \<and> heap st a = Some s \<and> scaleToIntensity p0 s t = Inr s'
        \<and> st' = st\<lparr>heap := (heap st)(a \<mapsto> s')\<rparr>)"
  by (auto simp: scale_intensity_def deref_def split: option.splits sum.splits)

lemma choose_condition_Inr:
  "choose_condition st = Inr st' \<longleftrightarrow>
     conditions st \<noteq> [] \<and>
     st' = st\<lparr>random_condition := Some (conditions st ! (py_random st 0 mod length (conditions st))),
              py_random := (\<lambda>i. py_random st (Suc i))\<rparr>"
  by (auto simp: choose_condition_def random_choice_def)

lemma lookup_stimulus_Inr:
  "lookup_stimulus st = Inr st' \<longleftrightarrow>
     (\<exists>c r. random_condition st = Some c \<and> stimuli st c = Some r
        \<and> st' = st\<lparr>random_stimulus := Some r\<rparr>)"
  by (auto simp: lookup_stimulus_def split: option.splits)

lemma draw_noise_Inr:
  "draw_noise st = Inr st' \<longleftrightarrow>
     (\<exists>r R. random_stimulus st = Some r \<and> heap st r = Some R
        \<and> st' = st\<lparr>noise_samples := Some (map (np_random st) [0..<length (samples R)]),
                   np_random := (\<lambda>i. np_random st (i + length (samples R)))\<rparr>)"
  by (auto simp: draw_noise_def deref_def np_random_normal_def n_samples_def
           split: option.splits)

lemma new_noisy_stimulus_Inr:
  "new_noisy_stimulus st = Inr st' \<longleftrightarrow>
     (\<exists>xs r R. noise_samples st = Some xs \<and> random_stimulus st = Some r \<and> heap st r = Some R
        \<and> st' = st\<lparr>heap := (heap st)(next_addr st \<mapsto>
                              \<lparr>samples = xs, sampling_frequency = sampling_frequency R\<rparr>),
                   next_addr := Suc (next_addr st),
                   noisy_stimulus := Some (next_addr st)\<rparr>)"
  by (auto simp: new_noisy_stimulus_def deref_def split: option.splits)

lemma add_reference_Inr:
  "add_reference st = Inr st' \<longleftrightarrow>
     (\<exists>a N r R M. noisy_stimulus st = Some a \<and> heap st a = Some N
        \<and> random_stimulus st = Some r \<and> heap st r = Some R
        \<and> add_values N R = Inr M \<and> st' = st\<lparr>heap := (heap st)(a \<mapsto> M)\<rparr>)"
  by (auto simp: add_reference_def deref_def split: option.splits sum.splits)

lemma save_resampled_Inr:
  "save_resampled resample st = Inr st' \<longleftrightarrow>
     (\<exists>a M f. noisy_stimulus st = Some a \<and> heap st a = Some M \<and> stimulus_file_name st = Some f
        \<and> writable st f \<and> st' = st\<lparr>files := (files st)(f \<mapsto> resample M 44100)\<rparr>)"
  by (auto simp: save_resampled_def deref_def split: option.splits)

lemma set_sound_Inr:
  "set_sound st = Inr st' \<longleftrightarrow>
     (\<exists>f. stimulus_file_name st = Some f
        \<and> st' = st\<lparr>stdout := stdout st @
              [''Setting audio file of Sound component to '' @ [CHR 0x27] @ f @ [CHR 0x27]]\<rparr>)"
  by (auto simp: set_sound_def split: option.splits)

lemmas stmt_Inr =
  choose_condition_Inr lookup_stimulus_Inr draw_noise_Inr new_noisy_stimulus_Inr
  add_reference_Inr save_resampled_Inr set_sound_Inr scale_intensity_Inr

subsection \<open>The library is read-only during a trial\<close>

text \<open>The statements before the allocation write no object and allocate nothing.\<close>

lemma before_alloc_frame:
  assumes "s \<in> set [choose_condition, lookup_stimulus, draw_noise]" and "s st = Inr st'"
  shows "heap st' = heap st \<and> next_addr st' = next_addr st \<and> stimuli st' = stimuli st"
  using assms by (auto simp: stmt_Inr)

text \<open>
  The statements after the allocation write at most the object \<^verbatim>\<open>noisy_stimulus\<close>
  names, and keep that name.
\<close>

lemma after_alloc_frame:
  assumes "s \<in> set [scale_noise p0, add_reference, renormalize p0, name_file,
                     save_resampled resample, set_sound]"
    and "s st = Inr st'" and "noisy_stimulus st = Some n"
  shows "noisy_stimulus st' = Some n \<and> (\<forall>a. a \<noteq> n \<longrightarrow> heap st' a = heap st a)
       \<and> dom (heap st') \<subseteq> insert n (dom (heap st))
       \<and> next_addr st' = next_addr st \<and> stimuli st' = stimuli st"
  using assms
  by (auto simp: stmt_Inr scale_noise_def renormalize_def name_file_def split: if_splits)

lemma begin_routine_split:
  "begin_routine p0 resample =
     exec ([choose_condition, lookup_stimulus, draw_noise] @
           (new_noisy_stimulus #
            [scale_noise p0, add_reference, renormalize p0, name_file,
             save_resampled resample, set_sound]))"
  by (simp add: begin_routine_def synthesize_def)

lemma begin_routine_frame:
  assumes ok: "heap_ok st"
  shows "stimuli (snd (begin_routine p0 resample st)) = stimuli st
       \<and> (\<forall>a. a \<noteq> next_addr st \<longrightarrow> heap (snd (begin_routine p0 resample st)) a = heap st a)
       \<and> heap_ok (snd (begin_routine p0 resample st))"
proof -
  let ?pre = "[choose_condition, lookup_stimulus, draw_noise]"
  let ?post = "[scale_noise p0, add_reference, renormalize p0, name_file,
                save_resampled resample, set_sound]"
  let ?K = "\<lambda>s. heap s = heap st \<and> next_addr s = next_addr st \<and> stimuli s = stimuli st"
  let ?goal = "\<lambda>s. stimuli s = stimuli st
       \<and> (\<forall>a. a \<noteq> next_addr st \<longrightarrow> heap s a = heap st a) \<and> heap_ok s"
  obtain e1 st1 where pre: "exec ?pre st = (e1, st1)"
    by (cases "exec ?pre st")
  have br: "begin_routine p0 resample st =
     (case (e1, st1) of
        (None, s1) \<Rightarrow>
          (case new_noisy_stimulus s1 of Inl e \<Rightarrow> (Some e, s1) | Inr s2 \<Rightarrow> exec ?post s2)
      | (Some e, s1) \<Rightarrow> (Some e, s1))"
    unfolding begin_routine_split exec_append_Cons pre by (rule refl)
  have "?K (snd (exec ?pre st))"
    by (rule exec_invariant [where P = ?K]) (use before_alloc_frame in \<open>auto\<close>)
  then have K1: "?K st1"
    unfolding pre by simp
  then have g1: "?goal st1"
    using ok by (simp add: heap_ok_def)
  show ?thesis
  proof (cases e1)
    case (Some e)
    then have "begin_routine p0 resample st = (Some e, st1)"
      unfolding br by simp
    with g1 show ?thesis
      by simp
  next
    case None
    show ?thesis
    proof (cases "new_noisy_stimulus st1")
      case (Inl e)
      with None have "begin_routine p0 resample st = (Some e, st1)"
        unfolding br by simp
      with g1 show ?thesis
        by simp
    next
      case (Inr st2)
      let ?n = "next_addr st"
      let ?J = "\<lambda>s. noisy_stimulus s = Some ?n \<and> (\<forall>a. a \<noteq> ?n \<longrightarrow> heap s a = heap st a)
         \<and> dom (heap s) \<subseteq> insert ?n (dom (heap st))
         \<and> next_addr s = Suc ?n \<and> stimuli s = stimuli st"
      from Inr K1 have J2: "?J st2"
        by (auto simp: new_noisy_stimulus_Inr)
      have Jpost: "?J (snd (exec ?post st2))"
      proof (rule exec_invariant [where P = ?J])
        show "?J st2" by (rule J2)
      next
        fix s a b
        assume "s \<in> set ?post" "?J a" "s a = Inr b"
        with after_alloc_frame [of s p0 resample a b ?n] show "?J b"
          by auto
      qed
      have eq: "begin_routine p0 resample st = exec ?post st2"
        unfolding br by (simp only: None Inr prod.case option.case sum.case)
      have J: "?J (snd (begin_routine p0 resample st))"
        unfolding eq by (rule Jpost)
      have "heap_ok (snd (begin_routine p0 resample st))"
        unfolding heap_ok_def
      proof
        fix x assume "x \<in> dom (heap (snd (begin_routine p0 resample st)))"
        with J have "x = ?n \<or> x \<in> dom (heap st)" by blast
        with ok have "x < Suc ?n"
          unfolding heap_ok_def by (auto simp: less_Suc_eq)
        with J show "x \<in> {..<next_addr (snd (begin_routine p0 resample st))}"
          by simp
      qed
      with J show ?thesis
        by simp
    qed
  qed
qed

text \<open>
  Claim C8. A trial started in a well-formed store leaves the library as it was:
  \<^verbatim>\<open>stimuli\<close> maps the same labels to the same objects, every library object has the
  samples and the sampling frequency it had, and the only address at which the store
  differs afterwards is the one allocated in this trial for \<^verbatim>\<open>noisy_stimulus\<close>. This
  holds whether the cell completes or raises, and the store is well-formed again, so it
  holds for every later trial too.
\<close>

theorem library_unchanged:
  assumes "heap_ok st" and "library_ok st"
  shows "stimuli (snd (begin_routine p0 resample st)) = stimuli st
       \<and> (\<forall>c r. stimuli st c = Some r \<longrightarrow>
             heap (snd (begin_routine p0 resample st)) r = heap st r)
       \<and> (\<forall>a. a \<noteq> next_addr st \<longrightarrow>
             heap (snd (begin_routine p0 resample st)) a = heap st a)
       \<and> heap_ok (snd (begin_routine p0 resample st))
       \<and> library_ok (snd (begin_routine p0 resample st))"
proof -
  let ?st' = "snd (begin_routine p0 resample st)"
  note fr = begin_routine_frame [OF assms(1), of p0 resample]
  have fresh: "r \<noteq> next_addr st" if "stimuli st c = Some r" for c r
  proof -
    from that have "r \<in> ran (stimuli st)" by (auto simp: ran_def)
    with assms(2) have "r \<in> dom (heap st)" unfolding library_ok_def by blast
    with assms(1) have "r \<in> {..<next_addr st}" unfolding heap_ok_def by blast
    then show ?thesis by simp
  qed
  have lib: "\<forall>c r. stimuli st c = Some r \<longrightarrow> heap ?st' r = heap st r"
    using fr fresh by blast
  have "library_ok ?st'"
    unfolding library_ok_def
  proof
    fix r assume "r \<in> ran (stimuli ?st')"
    then obtain c where c: "stimuli st c = Some r"
      using fr by (auto simp: ran_def)
    then have "r \<in> ran (stimuli st)" by (auto simp: ran_def)
    with assms(2) have "r \<in> dom (heap st)" by (auto simp: library_ok_def)
    with lib c show "r \<in> dom (heap ?st')" by (auto simp: dom_def)
  qed
  with fr lib show ?thesis by simp
qed


subsection \<open>The synthesis step by step\<close>

lemma map2_add_commute: "map2 (+) xs ys = map2 (+) ys (xs :: real list)"
proof (induction xs arbitrary: ys)
  case Nil
  show ?case by simp
next
  case (Cons x xs)
  then show ?case by (cases ys) simp_all
qed

lemma add_values_same_length:
  "length (samples b) = length (samples a) \<Longrightarrow>
   add_values a b = Inr (a\<lparr>samples := map2 (+) (samples a) (samples b)\<rparr>)"
  by (simp add: add_values_def iadd_def)

text \<open>
  The five statements of \<open>synthesize\<close>, run from a state in which \<^verbatim>\<open>random_stimulus\<close>
  names the object \<open>R\<close>: the new object gets the address \<open>next_addr st\<close>, and the two
  places where the run can stop early are the two intensity scalings.
\<close>

lemma synthesize_run:
  assumes ok: "heap_ok st" and r: "random_stimulus st = Some r" and R: "heap st r = Some R"
  defines "n \<equiv> next_addr st"
    and "N \<equiv> \<lparr>samples = map (np_random st) [0..<length (samples R)],
               sampling_frequency = sampling_frequency R\<rparr>"
  defines "st2 \<equiv> st\<lparr>noise_samples := Some (samples N),
                      np_random := (\<lambda>i. np_random st (i + length (samples R))),
                      heap := (heap st)(n \<mapsto> N), next_addr := Suc n,
                      noisy_stimulus := Some n\<rparr>"
  shows "exec (synthesize p0) st =
       (case scaleToIntensity p0 N (STANDARD_INTENSITY - level st) of
          Inl e \<Rightarrow> (Some e, st2)
        | Inr N' \<Rightarrow>
            (case scaleToIntensity p0 (N'\<lparr>samples := map2 (+) (samples N') (samples R)\<rparr>)
                    STANDARD_INTENSITY of
               Inl e \<Rightarrow>
                 (Some e, st2\<lparr>heap := (heap st)
                    (n \<mapsto> N'\<lparr>samples := map2 (+) (samples N') (samples R)\<rparr>)\<rparr>)
             | Inr M' \<Rightarrow> (None, st2\<lparr>heap := (heap st)(n \<mapsto> M')\<rparr>)))"
proof -
  from ok R have rn: "r \<noteq> n"
    unfolding heap_ok_def n_def by (auto simp: dom_def)
  define st1 where "st1 = st\<lparr>noise_samples := Some (samples N),
      np_random := (\<lambda>i. np_random st (i + length (samples R)))\<rparr>"
  have s1: "draw_noise st = Inr st1"
    using r R by (simp add: draw_noise_Inr st1_def N_def)
  have s2: "new_noisy_stimulus st1 = Inr st2"
    using r R by (simp add: new_noisy_stimulus_def deref_def st1_def st2_def N_def n_def)
  have h2: "heap st2 = (heap st)(n \<mapsto> N)" "noisy_stimulus st2 = Some n"
    "random_stimulus st2 = Some r" "level st2 = level st"
    by (simp_all add: st2_def st1_def r)
  have run: "exec (synthesize p0) st =
      exec [scale_noise p0, add_reference, renormalize p0] st2"
    by (simp add: synthesize_def s1 s2)
  show ?thesis
    proof (cases "scaleToIntensity p0 N (STANDARD_INTENSITY - level st)")
      case (Inl e)
      then have "scale_noise p0 st2 = Inl e"
        by (simp add: scale_noise_def scale_intensity_def deref_def h2)
      with Inl show ?thesis
        by (simp add: run)
    next
      case (Inr N')
      define st3 where "st3 = st2\<lparr>heap := (heap st)(n \<mapsto> N')\<rparr>"
      define M where "M = N'\<lparr>samples := map2 (+) (samples N') (samples R)\<rparr>"
      define st4 where "st4 = st2\<lparr>heap := (heap st)(n \<mapsto> M)\<rparr>"
      have s3: "scale_noise p0 st2 = Inr st3"
        using Inr by (simp add: scale_noise_def scale_intensity_def deref_def h2 st3_def)
      have len: "length (samples R) = length (samples N')"
        using scaleToIntensity_cases(2) [OF Inr] by (simp add: N_def)
      have s4: "add_reference st3 = Inr st4"
        using rn R len
        by (simp add: add_reference_def deref_def st3_def st4_def h2 M_def
                      add_values_same_length)
      have h4: "noisy_stimulus st4 = Some n" "heap st4 n = Some M"
        by (simp_all add: st4_def h2)
      have run4: "exec (synthesize p0) st = exec [renormalize p0] st4"
        by (simp add: run s3 s4)
      show ?thesis
      proof (cases "scaleToIntensity p0 M STANDARD_INTENSITY")
        case (Inl e)
        then have "renormalize p0 st4 = Inl e"
          by (simp add: renormalize_def scale_intensity_def deref_def h4)
        with Inl Inr show ?thesis
          by (simp add: run4 st4_def M_def)
      next
        case (Inr M')
        then have "renormalize p0 st4 = Inr (st2\<lparr>heap := (heap st)(n \<mapsto> M')\<rparr>)"
          by (simp add: renormalize_def scale_intensity_def deref_def h4) (simp add: st4_def)
        with Inr \<open>scaleToIntensity p0 N (STANDARD_INTENSITY - level st) = Inr N'\<close>
        show ?thesis
          by (simp add: run4 M_def)
      qed
    qed
qed



subsection \<open>When a trial completes\<close>

lemma after_synthesis_run:
  assumes "noisy_stimulus st = Some n" and "heap st n = Some M"
    and "writable st (buildPath (filename st) (thisTrialN st))"
  shows "fst (exec [name_file, save_resampled resample, set_sound] st) = None
       \<and> output_buffer (snd (exec [name_file, save_resampled resample, set_sound] st)) = Some M
       \<and> files (snd (exec [name_file, save_resampled resample, set_sound] st))
             (buildPath (filename st) (thisTrialN st)) = Some (resample M 44100)
       \<and> random_condition (snd (exec [name_file, save_resampled resample, set_sound] st))
           = random_condition st
       \<and> responses (snd (exec [name_file, save_resampled resample, set_sound] st))
           = responses st"
  using assms
  by (simp add: name_file_def save_resampled_def set_sound_def deref_def output_buffer_def)

text \<open>
  The cell completes when the chosen label is in the library, neither the noise nor the
  mix is silent and the file of the trial can be written; the object \<^verbatim>\<open>noisy_stimulus\<close>
  names is then the rescaled mix, and its resampled copy is in the file of the trial.
\<close>

lemma begin_routine_succeeds:
  assumes ok: "heap_ok st" and c: "conditions st \<noteq> []"
    and r: "stimuli st (conditions st ! (py_random st 0 mod length (conditions st))) = Some r"
    and R: "heap st r = Some R"
    and N': "scaleToIntensity p0
               \<lparr>samples = map (np_random st) [0..<length (samples R)],
                sampling_frequency = sampling_frequency R\<rparr>
               (STANDARD_INTENSITY - level st) = Inr N'"
    and M': "scaleToIntensity p0 (N'\<lparr>samples := map2 (+) (samples N') (samples R)\<rparr>)
               STANDARD_INTENSITY = Inr M'"
    and w: "writable st (buildPath (filename st) (thisTrialN st))"
  shows "fst (begin_routine p0 resample st) = None
       \<and> output_buffer (snd (begin_routine p0 resample st)) = Some M'
       \<and> files (snd (begin_routine p0 resample st)) (buildPath (filename st) (thisTrialN st))
           = Some (resample M' 44100)"
proof -
  let ?c = "conditions st ! (py_random st 0 mod length (conditions st))"
  define sb where "sb = st\<lparr>random_condition := Some ?c,
      py_random := (\<lambda>i. py_random st (Suc i)), random_stimulus := Some r\<rparr>"
  have b: "heap_ok sb" "random_stimulus sb = Some r" "heap sb r = Some R"
    "level sb = level st" "np_random sb = np_random st" "next_addr sb = next_addr st"
    "heap sb = heap st"
    using ok R by (simp_all add: sb_def heap_ok_def)
  have pre: "exec [choose_condition, lookup_stimulus] st = (None, sb)"
    using c r by (simp add: choose_condition_def random_choice_def lookup_stimulus_def sb_def)
  let ?N = "\<lparr>samples = map (np_random st) [0..<length (samples R)],
             sampling_frequency = sampling_frequency R\<rparr>"
  define sc where "sc = sb\<lparr>noise_samples := Some (samples ?N),
       np_random := (\<lambda>i. np_random sb (i + length (samples R))),
       heap := (heap sb)(next_addr sb \<mapsto> ?N), next_addr := Suc (next_addr sb),
       noisy_stimulus := Some (next_addr sb)\<rparr>\<lparr>heap := (heap sb)(next_addr sb \<mapsto> M')\<rparr>"
  have syn: "exec (synthesize p0) sb = (None, sc)"
    using synthesize_run [OF b(1-3), of p0] N' M'
    by (simp add: b(4,5) sc_def)
  have d: "noisy_stimulus sc = Some (next_addr st)" "heap sc (next_addr st) = Some M'"
    "filename sc = filename st" "thisTrialN sc = thisTrialN st"
    by (simp_all add: sc_def sb_def)
  have wc: "writable sc (buildPath (filename sc) (thisTrialN sc))"
    using w by (simp add: sc_def sb_def)
  have "begin_routine p0 resample st = exec [name_file, save_resampled resample, set_sound] sc"
    unfolding begin_routine_def exec_append pre
    by (simp only: prod.case option.case syn)
  with after_synthesis_run [OF d(1,2) wc, of resample] show ?thesis
    by (simp only: d)
qed


lemma example_noise_scaled:
  "scaleToIntensity 1 \<lparr>samples = [1, 1], sampling_frequency = 22050\<rparr> 60
     = Inr \<lparr>samples = [1000, 1000], sampling_frequency = 22050\<rparr>"
  by (simp add: scaleToIntensity_def measureIntensity_def rms_def sum_squares_def)



theorem library_unchanged_witness:
  "heap_ok example_state \<and> library_ok example_state
   \<and> stimuli (snd (begin_routine 1 example_resample example_state)) ''a'' = Some 0
   \<and> heap (snd (begin_routine 1 example_resample example_state)) 0
       = Some \<lparr>samples = [10 powr (7 / 2), - (10 powr (7 / 2))], sampling_frequency = 22050\<rparr>"
proof -
  have ok: "heap_ok example_state"
    by (auto simp: example_state_def heap_ok_def)
  have lib: "library_ok example_state"
    by (auto simp: example_state_def library_ok_def ran_def)
  have a: "stimuli example_state ''a'' = Some 0"
    by (simp add: example_state_def)
  from library_unchanged [OF ok lib, of 1 example_resample] a
  have "stimuli (snd (begin_routine 1 example_resample example_state)) ''a'' = Some 0"
    "heap (snd (begin_routine 1 example_resample example_state)) 0 = heap example_state 0"
    by simp_all
  with ok lib show ?thesis
    by (simp add: example_state_def)
qed

subsection \<open>Mixing\<close>

text \<open>
  Claim C4, as the code has it. The addition of line 166 does not look at sampling
  frequencies. It succeeds exactly when the two buffers have the same length or the
  second one has a single sample. With equal lengths it returns the sample-wise sums;
  with a single-sample second buffer it adds that sample to every sample of the first.
  In both cases the sums are in the first buffer, whose rate and length stay, whatever
  the rate of the second: nothing is resampled. In every other case it fails, with
  \<^verbatim>\<open>ValueError\<close>. On the buffers a trial mixes, the noise made with the reference's
  length and rate and then rescaled, it agrees with the mix of the specification, which
  succeeds there.
\<close>

theorem add_values_ignores_rate:
  "(length (samples b) = length (samples a) \<longrightarrow>
      add_values a b = Inr \<lparr>samples = map2 (+) (samples a) (samples b),
                            sampling_frequency = sampling_frequency a\<rparr>)
   \<and> (\<forall>y. samples b = [y] \<and> length (samples a) \<noteq> 1 \<longrightarrow>
         add_values a b = Inr \<lparr>samples = map (\<lambda>x. x + y) (samples a),
                               sampling_frequency = sampling_frequency a\<rparr>)
   \<and> (length (samples b) \<noteq> length (samples a) \<and> length (samples b) \<noteq> 1 \<longrightarrow>
         add_values a b = Inl ValueError)
   \<and> ((\<exists>e. add_values a b = Inl e) =
         (length (samples b) \<noteq> length (samples a) \<and> length (samples b) \<noteq> 1))
   \<and> (\<forall>e. add_values a b = Inl e \<longrightarrow>
         e = ValueError \<and> length (samples b) \<noteq> length (samples a) \<and> length (samples b) \<noteq> 1)
   \<and> (\<forall>m. add_values a b = Inr m \<longrightarrow>
         sampling_frequency m = sampling_frequency a \<and> length (samples m) = length (samples a))
   \<and> (\<forall>N'. scaleToIntensity p0
               \<lparr>samples = map g [0..<length (samples R)],
                sampling_frequency = sampling_frequency R\<rparr> t = Inr N' \<longrightarrow>
         add_values N' R = mix_spec R N' \<and> (\<exists>M. mix_spec R N' = Inr M))"
proof -
  have same: "add_values a b = Inr \<lparr>samples = map2 (+) (samples a) (samples b),
                                    sampling_frequency = sampling_frequency a\<rparr>"
    if "length (samples b) = length (samples a)"
    using that by (simp add: add_values_same_length)
  have single: "add_values a b = Inr \<lparr>samples = map (\<lambda>x. x + y) (samples a),
                                      sampling_frequency = sampling_frequency a\<rparr>"
    if "samples b = [y]" "length (samples a) \<noteq> 1" for y
    using that by (auto simp: add_values_def iadd_def)
  have other: "add_values a b = Inl ValueError"
    if "length (samples b) \<noteq> length (samples a)" "length (samples b) \<noteq> 1"
  proof (cases "samples b")
    case Nil
    with that show ?thesis
      by (simp add: add_values_def iadd_def)
  next
    case (Cons y ys)
    with that(2) obtain z zs where "ys = z # zs"
      by (cases ys) auto
    with Cons that(1) show ?thesis
      by (simp add: add_values_def iadd_def)
  qed
  have fails: "length (samples b) \<noteq> length (samples a) \<and> length (samples b) \<noteq> 1
      \<and> e = ValueError"
    if "add_values a b = Inl e" for e
  proof -
    have "length (samples b) \<noteq> length (samples a)"
      using that same by auto
    moreover have "length (samples b) \<noteq> 1"
    proof
      assume "length (samples b) = 1"
      then obtain y where y: "samples b = [y]"
        by (cases "samples b") auto
      show False
      proof (cases "length (samples a) = 1")
        case True
        with y same that show False by simp
      next
        case False
        with y single that show False by simp
      qed
    qed
    ultimately show ?thesis
      using other that by simp
  qed
  have kept: "sampling_frequency m = sampling_frequency a \<and>
      length (samples m) = length (samples a)"
    if "add_values a b = Inr m" for m
    using that by (auto simp: add_values_def iadd_def split: if_splits list.splits)
  have trial: "add_values N' R = mix_spec R N' \<and> (\<exists>M. mix_spec R N' = Inr M)"
    if "scaleToIntensity p0
          \<lparr>samples = map g [0..<length (samples R)],
           sampling_frequency = sampling_frequency R\<rparr> t = Inr N'" for N'
  proof -
    from scaleToIntensity_cases(2) [OF that]
    have N': "sampling_frequency N' = sampling_frequency R"
      "length (samples N') = length (samples R)"
      by simp_all
    then have "mix_spec R N' = Inr (N'\<lparr>samples := map2 (+) (samples N') (samples R)\<rparr>)"
      by (simp add: mix_spec_def map2_add_commute [of "samples R"])
    with N' show ?thesis
      by (simp add: add_values_same_length)
  qed
  have iff: "(\<exists>e. add_values a b = Inl e) =
      (length (samples b) \<noteq> length (samples a) \<and> length (samples b) \<noteq> 1)"
    using fails other by blast
  from same single other iff fails kept trial show ?thesis
    by blast
qed

theorem add_values_ignores_rate_witness:
  "add_values \<lparr>samples = [1, 2], sampling_frequency = 22050\<rparr>
              \<lparr>samples = [3, 4], sampling_frequency = 22050\<rparr>
     = Inr \<lparr>samples = [4, 6], sampling_frequency = 22050\<rparr>
   \<and> add_values \<lparr>samples = [1, 2], sampling_frequency = 22050\<rparr>
                \<lparr>samples = [3], sampling_frequency = 22050\<rparr>
     = Inr \<lparr>samples = [4, 5], sampling_frequency = 22050\<rparr>
   \<and> add_values \<lparr>samples = [1, 2], sampling_frequency = 22050\<rparr>
                \<lparr>samples = [3, 4, 5], sampling_frequency = 22050\<rparr>
     = Inl ValueError
   \<and> add_values \<lparr>samples = [1000, 1000], sampling_frequency = 22050\<rparr>
                \<lparr>samples = [1, 1], sampling_frequency = 22050\<rparr>
     = mix_spec \<lparr>samples = [1, 1], sampling_frequency = 22050\<rparr>
                \<lparr>samples = [1000, 1000], sampling_frequency = 22050\<rparr>"
proof -
  let ?a = "\<lparr>samples = [1, 2], sampling_frequency = 22050\<rparr>"
  let ?R = "\<lparr>samples = [1, 1], sampling_frequency = 22050\<rparr>"
  have draws: "map (\<lambda>i. 1 :: real) [0..<2] = [1, 1]"
    by (simp add: upt_rec)
  have sc: "scaleToIntensity 1
      \<lparr>samples = map (\<lambda>i. 1) [0..<length (samples ?R)],
       sampling_frequency = sampling_frequency ?R\<rparr> 60
      = Inr \<lparr>samples = [1000, 1000], sampling_frequency = 22050\<rparr>"
    by (simp add: draws example_noise_scaled)
  have "add_values ?a \<lparr>samples = [3, 4], sampling_frequency = 22050\<rparr>
     = Inr \<lparr>samples = [4, 6], sampling_frequency = 22050\<rparr>"
    using add_values_ignores_rate
      [of "\<lparr>samples = [3, 4], sampling_frequency = 22050\<rparr>" ?a 1 "\<lambda>i. 1" ?R 60]
    by simp
  moreover have "add_values ?a \<lparr>samples = [3], sampling_frequency = 22050\<rparr>
     = Inr \<lparr>samples = [4, 5], sampling_frequency = 22050\<rparr>"
    using add_values_ignores_rate
      [of "\<lparr>samples = [3], sampling_frequency = 22050\<rparr>" ?a 1 "\<lambda>i. 1" ?R 60]
    by simp
  moreover have "add_values ?a \<lparr>samples = [3, 4, 5], sampling_frequency = 22050\<rparr>
     = Inl ValueError"
    using add_values_ignores_rate
      [of "\<lparr>samples = [3, 4, 5], sampling_frequency = 22050\<rparr>" ?a 1 "\<lambda>i. 1" ?R 60]
    by simp
  moreover from add_values_ignores_rate
      [of "\<lparr>samples = [3, 4], sampling_frequency = 22050\<rparr>" ?a 1 "\<lambda>i. 1" ?R 60] sc
  have "add_values \<lparr>samples = [1000, 1000], sampling_frequency = 22050\<rparr> ?R
     = mix_spec ?R \<lparr>samples = [1000, 1000], sampling_frequency = 22050\<rparr>"
    by blast
  ultimately show ?thesis
    by (intro conjI)
qed

text \<open>
  Two buffers of two samples at 22050 Hz and 44100 Hz: the addition succeeds and the
  result keeps the first rate. And a buffer of two samples with a buffer of one sample:
  the lengths differ, and the addition succeeds as well.
\<close>

theorem rate_mismatch_counterexample:
  "sampling_frequency \<lparr>samples = [1, 2], sampling_frequency = 22050\<rparr>
     \<noteq> sampling_frequency \<lparr>samples = [3, 4], sampling_frequency = 44100\<rparr>
   \<and> add_values \<lparr>samples = [1, 2], sampling_frequency = 22050\<rparr>
                \<lparr>samples = [3, 4], sampling_frequency = 44100\<rparr>
     = Inr \<lparr>samples = [4, 6], sampling_frequency = 22050\<rparr>
   \<and> length (samples \<lparr>samples = [1, 2], sampling_frequency = 22050\<rparr>)
     \<noteq> length (samples \<lparr>samples = [3], sampling_frequency = 22050\<rparr>)
   \<and> add_values \<lparr>samples = [1, 2], sampling_frequency = 22050\<rparr>
                \<lparr>samples = [3], sampling_frequency = 22050\<rparr>
     = Inr \<lparr>samples = [4, 5], sampling_frequency = 22050\<rparr>"
  by (simp add: add_values_def iadd_def)

subsection \<open>The reported response\<close>

lemma after_choice_frame:
  assumes "s \<in> set ([lookup_stimulus] @ synthesize p0 @
                     [name_file, save_resampled resample, set_sound])"
    and "s st = Inr st'"
  shows "random_condition st' = random_condition st \<and> responses st' = responses st"
  using assms
  by (auto simp: synthesize_def stmt_Inr scale_noise_def renormalize_def name_file_def)

text \<open>
  Claim C10. After a trial whose Begin Routine completed, \<^verbatim>\<open>random_condition\<close> is the
  label \<^verbatim>\<open>random.choice\<close> picked from \<^verbatim>\<open>conditions\<close> at the start of that trial. In
  any later state with that label and with the key \<open>k\<close> stored in the keyboard
  component, End Routine completes and hands \<^verbatim>\<open>addResponse\<close> the value of
  \<open>k = label\<close>: \<open>True\<close> exactly when the key is the label, whatever the rest of the
  state is.
\<close>

theorem response_is_match:
  assumes "begin_routine p0 resample st = (None, st1)"
    and "random_condition st2 = random_condition st1"
    and "key_resp_2_keys st2 = Some k"
  shows "\<exists>c. conditions st \<noteq> []
       \<and> c = conditions st ! (py_random st 0 mod length (conditions st))
       \<and> random_condition st1 = Some c
       \<and> end_routine st2 = (None, addResponse (k = c) st2)
       \<and> responses (snd (end_routine st2)) = responses st2 @ [k = c]"
proof -
  let ?rest = "[lookup_stimulus] @ synthesize p0 @
               [name_file, save_resampled resample, set_sound]"
  let ?c = "conditions st ! (py_random st 0 mod length (conditions st))"
  have "[choose_condition, lookup_stimulus] @ synthesize p0 @
          [name_file, save_resampled resample, set_sound] = choose_condition # ?rest"
    by simp
  with assms(1) have "exec (choose_condition # ?rest) st = (None, st1)"
    by (simp only: begin_routine_def)
  then obtain sa where sa: "choose_condition st = Inr sa"
    and rest: "exec ?rest sa = (None, st1)"
    unfolding exec_Cons_None by blast
  from sa have c: "conditions st \<noteq> []" "random_condition sa = Some ?c"
    by (simp_all add: choose_condition_Inr)
  have "random_condition (snd (exec ?rest sa)) = Some ?c"
  proof (rule exec_invariant [where P = "\<lambda>s. random_condition s = Some ?c"])
    show "random_condition sa = Some ?c" by (rule c)
  next
    fix s a b
    assume "s \<in> set ?rest" "random_condition a = Some ?c" "s a = Inr b"
    with after_choice_frame [of s p0 resample a b] show "random_condition b = Some ?c"
      by simp
  qed
  with rest have c1: "random_condition st1 = Some ?c"
    by simp
  with assms(2,3) have "end_routine st2 = (None, addResponse (k = ?c) st2)"
    by (simp add: end_routine_def report_response_def)
  with c c1 show ?thesis
    by (simp add: addResponse_def)
qed

theorem response_is_match_witness:
  "\<exists>st1. begin_routine 1 example_resample example_state = (None, st1)
       \<and> random_condition st1 = Some ''a''
       \<and> responses (snd (end_routine (st1\<lparr>key_resp_2_keys := Some ''a''\<rparr>))) = [True]
       \<and> responses (snd (end_routine (st1\<lparr>key_resp_2_keys := Some ''e''\<rparr>))) = [False]"
proof -
  let ?R = "\<lparr>samples = [10 powr (7 / 2), - (10 powr (7 / 2))], sampling_frequency = 22050\<rparr>"
  let ?N' = "\<lparr>samples = [1000, 1000], sampling_frequency = 22050\<rparr>"
  have ok: "heap_ok example_state" "conditions example_state \<noteq> []"
    by (auto simp: example_state_def heap_ok_def)
  have r: "stimuli example_state (conditions example_state !
      (py_random example_state 0 mod length (conditions example_state))) = Some 0"
    by (simp add: example_state_def)
  have R: "heap example_state 0 = Some ?R"
    by (simp add: example_state_def)
  have draws: "map (\<lambda>i. 1 :: real) [0..<2] = [1, 1]"
    by (simp add: upt_rec)
  have N': "scaleToIntensity 1
      \<lparr>samples = map (np_random example_state) [0..<length (samples ?R)],
       sampling_frequency = sampling_frequency ?R\<rparr>
      (STANDARD_INTENSITY - level example_state) = Inr ?N'"
    by (simp add: example_state_def STANDARD_INTENSITY_def draws example_noise_scaled)
  have "(0::real) < 1000 + 10 powr (7 / 2)"
    by (simp add: add_pos_pos)
  then have "rms (samples (?N'\<lparr>samples := map2 (+) (samples ?N') (samples ?R)\<rparr>)) \<noteq> 0"
    by (simp add: rms_zero_iff)
  then obtain M' where M': "scaleToIntensity 1
      (?N'\<lparr>samples := map2 (+) (samples ?N') (samples ?R)\<rparr>) STANDARD_INTENSITY = Inr M'"
    by (simp add: scaleToIntensity_Inr)
  have w: "writable example_state
      (buildPath (filename example_state) (thisTrialN example_state))"
    by (simp add: example_state_def)
  from begin_routine_succeeds [OF ok r R N' M' w, of example_resample]
  obtain st1 where run: "begin_routine 1 example_resample example_state = (None, st1)"
    by (cases "begin_routine 1 example_resample example_state") simp
  have ex: "responses example_state = []"
    "conditions example_state ! (py_random example_state 0 mod length (conditions example_state))
       = ''a''"
    by (simp_all add: example_state_def)
  have st1: "random_condition st1 = Some ''a''"
    using response_is_match [OF run, of "st1\<lparr>key_resp_2_keys := Some ''a''\<rparr>" "''a''"] ex
    by simp
  have resp: "responses st1 = []"
  proof -
    have "responses (snd (exec ([choose_condition, lookup_stimulus] @ synthesize 1 @
        [name_file, save_resampled example_resample, set_sound]) example_state)) = []"
      by (rule exec_invariant [where P = "\<lambda>s. responses s = []"])
         (auto simp: ex synthesize_def stmt_Inr scale_noise_def renormalize_def name_file_def)
    with run show ?thesis
      by (simp add: begin_routine_def)
  qed
  have "responses (snd (end_routine (st1\<lparr>key_resp_2_keys := Some ''a''\<rparr>))) = [True]"
    using response_is_match [OF run, of "st1\<lparr>key_resp_2_keys := Some ''a''\<rparr>" "''a''"] ex resp
    by (simp add: addResponse_def)
  moreover have "responses (snd (end_routine (st1\<lparr>key_resp_2_keys := Some ''e''\<rparr>))) = [False]"
    using response_is_match [OF run, of "st1\<lparr>key_resp_2_keys := Some ''e''\<rparr>" "''e''"] ex resp
    by (simp add: addResponse_def)
  ultimately show ?thesis
    using run st1 by blast
qed


subsection \<open>Randomness and reproducibility\<close>

text \<open>No statement but \<open>draw_noise\<close> reads or writes numpy's generator.\<close>

lemma stmt_np_random_indep:
  assumes "s \<in> set [choose_condition, lookup_stimulus, new_noisy_stimulus, scale_noise p0,
                     add_reference, renormalize p0, name_file, save_resampled resample,
                     set_sound]"
  shows "s (st\<lparr>np_random := h\<rparr>) = map_sum id (\<lambda>x. x\<lparr>np_random := h\<rparr>) (s st)"
  using assms
  by (auto simp: choose_condition_def random_choice_def lookup_stimulus_def
                 new_noisy_stimulus_def scale_noise_def renormalize_def scale_intensity_def
                 add_reference_def name_file_def save_resampled_def set_sound_def deref_def
           split: option.splits sum.splits)

lemma exec_np_random_indep:
  assumes "\<And>s st h. s \<in> set ss \<Longrightarrow>
             s (st\<lparr>np_random := h\<rparr>) = map_sum id (\<lambda>x. x\<lparr>np_random := h\<rparr>) (s st)"
  shows "exec ss (st\<lparr>np_random := h\<rparr>) = apsnd (\<lambda>x. x\<lparr>np_random := h\<rparr>) (exec ss st)"
  using assms
proof (induction ss arbitrary: st)
  case Nil
  show ?case by simp
next
  case (Cons s ss)
  have s: "s (st\<lparr>np_random := h\<rparr>) = map_sum id (\<lambda>x. x\<lparr>np_random := h\<rparr>) (s st)"
    by (rule Cons.prems) simp
  show ?case
  proof (cases "s st")
    case (Inl e)
    with s show ?thesis by simp
  next
    case (Inr st1)
    have "exec ss (st1\<lparr>np_random := h\<rparr>) = apsnd (\<lambda>x. x\<lparr>np_random := h\<rparr>) (exec ss st1)"
      by (rule Cons.IH) (rule Cons.prems, simp)
    with s Inr show ?thesis by simp
  qed
qed

text \<open>
  \<open>draw_noise\<close> takes as many draws as the reference has samples: two generators that
  agree on those give the same noise.
\<close>

lemma draw_noise_agree:
  assumes "\<And>r R i. heap st r = Some R \<Longrightarrow> i < length (samples R) \<Longrightarrow> h i = np_random st i"
  shows "\<exists>h'. draw_noise (st\<lparr>np_random := h\<rparr>) = map_sum id (\<lambda>x. x\<lparr>np_random := h'\<rparr>) (draw_noise st)"
proof (cases "deref st (random_stimulus st)")
  case (Inl e)
  then show ?thesis
    by (auto simp: draw_noise_def deref_def split: option.splits)
next
  case (Inr p)
  then obtain r R where p: "p = (r, R)" "random_stimulus st = Some r" "heap st r = Some R"
    by (cases p) (auto simp: deref_Inr)
  have "map h [0..<length (samples R)] = map (np_random st) [0..<length (samples R)]"
    using assms [OF p(3)] by simp
  then have "draw_noise (st\<lparr>np_random := h\<rparr>) =
      map_sum id (\<lambda>x. x\<lparr>np_random := (\<lambda>i. h (i + length (samples R)))\<rparr>) (draw_noise st)"
    using p by (simp add: draw_noise_def deref_def np_random_normal_def n_samples_def)
  then show ?thesis by blast
qed

lemma begin_routine_np_random:
  assumes agree: "\<And>r R i. heap st r = Some R \<Longrightarrow> i < length (samples R) \<Longrightarrow>
                     h i = np_random st i"
  shows "\<exists>h'. begin_routine p0 resample (st\<lparr>np_random := h\<rparr>) =
           apsnd (\<lambda>x. x\<lparr>np_random := h'\<rparr>) (begin_routine p0 resample st)"
proof -
  let ?pre = "[choose_condition, lookup_stimulus]"
  let ?post = "[new_noisy_stimulus, scale_noise p0, add_reference, renormalize p0, name_file,
                save_resampled resample, set_sound]"
  have split: "begin_routine p0 resample = exec (?pre @ draw_noise # ?post)"
    by (simp add: begin_routine_def synthesize_def)
  have br: "begin_routine p0 resample s =
     (case exec ?pre s of
        (None, s1) \<Rightarrow> (case draw_noise s1 of Inl e \<Rightarrow> (Some e, s1) | Inr s2 \<Rightarrow> exec ?post s2)
      | (Some e, s1) \<Rightarrow> (Some e, s1))" for s
    unfolding split by (rule exec_append_Cons)
  have pre: "exec ?pre (st\<lparr>np_random := h\<rparr>) = apsnd (\<lambda>x. x\<lparr>np_random := h\<rparr>) (exec ?pre st)"
    by (rule exec_np_random_indep) (rule stmt_np_random_indep [of _ p0 resample], auto)
  have post: "exec ?post (s\<lparr>np_random := k\<rparr>) = apsnd (\<lambda>x. x\<lparr>np_random := k\<rparr>) (exec ?post s)"
    for s k
    by (rule exec_np_random_indep) (rule stmt_np_random_indep [of _ p0 resample], auto)
  obtain e1 s1 where e1: "exec ?pre st = (e1, s1)"
    by (cases "exec ?pre st")
  have "heap (snd (exec ?pre st)) = heap st \<and> np_random (snd (exec ?pre st)) = np_random st"
    by (rule exec_invariant [where P = "\<lambda>s. heap s = heap st \<and> np_random s = np_random st"])
       (auto simp: stmt_Inr)
  then have same: "heap s1 = heap st" "np_random s1 = np_random st"
    unfolding e1 by simp_all
  show ?thesis
  proof (cases e1)
    case (Some e)
    then have "begin_routine p0 resample (st\<lparr>np_random := h\<rparr>) =
        apsnd (\<lambda>x. x\<lparr>np_random := h\<rparr>) (begin_routine p0 resample st)"
      unfolding br pre e1 by simp
    then show ?thesis by blast
  next
    case None
    from draw_noise_agree [of s1 h] agree same obtain h' where
      dn: "draw_noise (s1\<lparr>np_random := h\<rparr>) = map_sum id (\<lambda>x. x\<lparr>np_random := h'\<rparr>) (draw_noise s1)"
      by auto
    show ?thesis
    proof (cases "draw_noise s1")
      case (Inl e)
      with None dn have "begin_routine p0 resample (st\<lparr>np_random := h\<rparr>) =
          apsnd (\<lambda>x. x\<lparr>np_random := h\<rparr>) (begin_routine p0 resample st)"
        unfolding br pre e1 by simp
      then show ?thesis by blast
    next
      case (Inr s2)
      have l: "begin_routine p0 resample (st\<lparr>np_random := h\<rparr>) = exec ?post (s2\<lparr>np_random := h'\<rparr>)"
        unfolding br pre e1 using None dn Inr
        by (simp only: apsnd_conv id_apply prod.case option.case sum.case map_sum.simps)
      have r: "begin_routine p0 resample st = exec ?post s2"
        unfolding br e1 using None Inr
        by (simp only: prod.case option.case sum.case)
      have "begin_routine p0 resample (st\<lparr>np_random := h\<rparr>) =
          apsnd (\<lambda>x. x\<lparr>np_random := h'\<rparr>) (begin_routine p0 resample st)"
        unfolding l r by (rule post)
      then show ?thesis by blast
    qed
  qed
qed

text \<open>
  Claim C2, as the code has it. The condition is drawn from Python's module-level
  generator and the noise from numpy's module-level generator; line 131 seeds only the
  first. Two runs of a trial that start from the same state, seed Python's generator with
  the same seed, and whose numpy generators deliver the same values for as many draws as
  any loaded sound has samples, end alike: the same exception or none, the same object
  in \<^verbatim>\<open>noisy_stimulus\<close>, the same files and the same printed lines. What Python's
  generator held before the seeding, and what numpy's generator delivers later, does not
  matter.
\<close>

theorem seeded_runs_agree:
  assumes "\<forall>r R. heap st r = Some R \<longrightarrow> (\<forall>i<length (samples R). h i = np_random st i)"
  shows "fst (begin_routine p0 resample (random_seed prng a (st\<lparr>py_random := g, np_random := h\<rparr>)))
           = fst (begin_routine p0 resample (random_seed prng a st))
       \<and> output_buffer (snd (begin_routine p0 resample
             (random_seed prng a (st\<lparr>py_random := g, np_random := h\<rparr>))))
           = output_buffer (snd (begin_routine p0 resample (random_seed prng a st)))
       \<and> files (snd (begin_routine p0 resample
             (random_seed prng a (st\<lparr>py_random := g, np_random := h\<rparr>))))
           = files (snd (begin_routine p0 resample (random_seed prng a st)))
       \<and> stdout (snd (begin_routine p0 resample
             (random_seed prng a (st\<lparr>py_random := g, np_random := h\<rparr>))))
           = stdout (snd (begin_routine p0 resample (random_seed prng a st)))"
proof -
  let ?s = "random_seed prng a st"
  have seed: "random_seed prng a (st\<lparr>py_random := g, np_random := h\<rparr>) = ?s\<lparr>np_random := h\<rparr>"
    by (simp add: random_seed_def)
  have "\<exists>h'. begin_routine p0 resample (?s\<lparr>np_random := h\<rparr>) =
           apsnd (\<lambda>x. x\<lparr>np_random := h'\<rparr>) (begin_routine p0 resample ?s)"
    by (rule begin_routine_np_random) (use assms in \<open>simp add: random_seed_def\<close>)
  then obtain h' where "begin_routine p0 resample (?s\<lparr>np_random := h\<rparr>) =
           apsnd (\<lambda>x. x\<lparr>np_random := h'\<rparr>) (begin_routine p0 resample ?s)"
    by blast
  then show ?thesis
    unfolding seed by (cases "begin_routine p0 resample ?s") (simp add: output_buffer_def)
qed


theorem seeded_runs_agree_witness:
  "output_buffer (snd (begin_routine 1 example_resample
       (random_seed example_prng 42
          (example_state\<lparr>py_random := (\<lambda>i. 5), np_random := (\<lambda>i. if i < 2 then 1 else 7)\<rparr>))))
   = output_buffer (snd (begin_routine 1 example_resample
       (random_seed example_prng 42 example_state)))"
proof -
  have "\<forall>r R. heap example_state r = Some R \<longrightarrow>
          (\<forall>i<length (samples R). (if i < 2 then 1 else 7) = np_random example_state i)"
    by (auto simp: example_state_def split: if_splits)
  from seeded_runs_agree [OF this, of 1 example_resample example_prng 42 "\<lambda>i. 5"]
  show ?thesis by simp
qed

text \<open>
  Two runs with the same seed for Python's generator whose numpy generators differ: the
  first draws the noise \<open>[1, 1]\<close>, the second \<open>[1, - 1]\<close>. Both complete; the samples
  of the first output sum to a positive number, those of the second to zero.
\<close>

lemma example_outputs:
  assumes draws: "map (np_random st) [0..<2] = [1, d]" and d: "d = 1 \<or> d = - 1"
    and st: "st = example_state\<lparr>py_random := example_prng 42, np_random := np_random st\<rparr>"
  shows "\<exists>f. 0 < f \<and> fst (begin_routine 1 example_resample st) = None
       \<and> output_buffer (snd (begin_routine 1 example_resample st)) =
           Some \<lparr>samples = [(1000 + 10 powr (7 / 2)) * f, (1000 * d - 10 powr (7 / 2)) * f],
                 sampling_frequency = 22050\<rparr>"
proof -
  let ?R = "\<lparr>samples = [10 powr (7 / 2), - (10 powr (7 / 2))], sampling_frequency = 22050\<rparr>"
  let ?N' = "\<lparr>samples = [1000, 1000 * d], sampling_frequency = 22050\<rparr>"
  let ?M = "\<lparr>samples = [1000 + 10 powr (7 / 2), 1000 * d - 10 powr (7 / 2)],
            sampling_frequency = 22050\<rparr>"
  have fields: "heap st = heap example_state" "next_addr st = next_addr example_state"
    "conditions st = [''a'', ''e'']" "stimuli st = stimuli example_state" "level st = 10"
    "py_random st 0 = 42"
    by (subst st, simp add: example_state_def example_prng_def)+
  have ok: "heap_ok st" "conditions st \<noteq> []"
    by (auto simp: fields heap_ok_def example_state_def)
  have "(42::nat) mod Suc (Suc 0) = 0"
    by presburger
  then have r: "stimuli st (conditions st ! (py_random st 0 mod length (conditions st))) = Some 0"
    by (simp add: fields example_state_def)
  have R: "heap st 0 = Some ?R"
    by (simp add: fields example_state_def)
  have "rms [1, d] = 1"
    using d by (auto simp: rms_def sum_squares_def)
  then have "scaleToIntensity 1 \<lparr>samples = [1, d], sampling_frequency = 22050\<rparr> 60 = Inr ?N'"
    by (simp add: scaleToIntensity_def measureIntensity_def)
  moreover from draws have "np_random st 0 = 1" "np_random st (Suc 0) = d"
    by (simp_all add: upt_rec)
  ultimately have N': "scaleToIntensity 1
      \<lparr>samples = map (np_random st) [0..<length (samples ?R)],
       sampling_frequency = sampling_frequency ?R\<rparr>
      (STANDARD_INTENSITY - level st) = Inr ?N'"
    by (simp add: fields STANDARD_INTENSITY_def)
  have mix: "?N'\<lparr>samples := map2 (+) (samples ?N') (samples ?R)\<rparr> = ?M"
    by simp
  have "(0::real) < 1000 + 10 powr (7 / 2)"
    by (simp add: add_pos_pos)
  then have nz: "rms (samples ?M) \<noteq> 0"
    by (simp add: rms_zero_iff)
  define f where "f = 10 powr ((STANDARD_INTENSITY - 20 * log 10 (rms (samples ?M) / 1)) / 20)"
  have f: "0 < f"
    by (simp add: f_def)
  have M': "scaleToIntensity 1 (?N'\<lparr>samples := map2 (+) (samples ?N') (samples ?R)\<rparr>)
      STANDARD_INTENSITY =
      Inr \<lparr>samples = [(1000 + 10 powr (7 / 2)) * f, (1000 * d - 10 powr (7 / 2)) * f],
           sampling_frequency = 22050\<rparr>"
    unfolding mix scaleToIntensity_Inr [OF nz] f_def by simp
  have w: "writable st (buildPath (filename st) (thisTrialN st))"
    by (subst st) (simp add: example_state_def)
  from begin_routine_succeeds [OF ok r R N' M' w, of example_resample] f
  show ?thesis by blast
qed

theorem unseeded_noise_counterexample:
  "fst (begin_routine 1 example_resample (random_seed example_prng 42 example_state)) = None
   \<and> fst (begin_routine 1 example_resample (random_seed example_prng 42 example_state_other))
       = None
   \<and> output_buffer (snd (begin_routine 1 example_resample
         (random_seed example_prng 42 example_state)))
     \<noteq> output_buffer (snd (begin_routine 1 example_resample
         (random_seed example_prng 42 example_state_other)))"
proof -
  let ?a = "random_seed example_prng 42 example_state"
  let ?b = "random_seed example_prng 42 example_state_other"
  have a: "map (np_random ?a) [0..<2] = [1, 1]"
    "?a = example_state\<lparr>py_random := example_prng 42, np_random := np_random ?a\<rparr>"
    by (simp_all add: random_seed_def example_state_def upt_rec)
  have b: "map (np_random ?b) [0..<2] = [1, - 1]"
    "?b = example_state\<lparr>py_random := example_prng 42, np_random := np_random ?b\<rparr>"
    by (simp_all add: random_seed_def example_state_other_def example_state_def upt_rec)
  from example_outputs [OF a(1) _ a(2)] obtain f where
    f: "0 < f" "fst (begin_routine 1 example_resample ?a) = None"
    "output_buffer (snd (begin_routine 1 example_resample ?a)) =
       Some \<lparr>samples = [(1000 + 10 powr (7 / 2)) * f, (1000 * 1 - 10 powr (7 / 2)) * f],
             sampling_frequency = 22050\<rparr>"
    by auto
  from example_outputs [OF b(1) _ b(2)] obtain k where
    k: "0 < k" "fst (begin_routine 1 example_resample ?b) = None"
    "output_buffer (snd (begin_routine 1 example_resample ?b)) =
       Some \<lparr>samples = [(1000 + 10 powr (7 / 2)) * k, (1000 * (- 1) - 10 powr (7 / 2)) * k],
             sampling_frequency = 22050\<rparr>"
    by auto
  have "(1000 + 10 powr (7 / 2)) * f + (1000 * 1 - 10 powr (7 / 2)) * f = 2000 * f"
    by (simp add: algebra_simps)
  moreover have "(1000 + 10 powr (7 / 2)) * k + (1000 * (- 1) - 10 powr (7 / 2)) * k = 0"
    by (simp add: algebra_simps)
  ultimately have
    "sum_list [(1000 + 10 powr (7 / 2)) * f, (1000 * 1 - 10 powr (7 / 2)) * f]
     \<noteq> sum_list [(1000 + 10 powr (7 / 2)) * k, (1000 * (- 1) - 10 powr (7 / 2)) * k]"
    using f(1) by simp
  then have "[(1000 + 10 powr (7 / 2)) * f, (1000 * 1 - 10 powr (7 / 2)) * f]
     \<noteq> [(1000 + 10 powr (7 / 2)) * k, (1000 * (- 1) - 10 powr (7 / 2)) * k]"
    by metis
  with f(2,3) k(2,3) show ?thesis
    by simp
qed


subsection \<open>What Begin Experiment establishes\<close>

lemma load_sound_Inr:
  "load_sound c st = Inr st' \<longleftrightarrow>
     (\<exists>path s. stimulus_files st c = Some path \<and> files st path = Some s
        \<and> st' = st\<lparr>heap := (heap st)(next_addr st \<mapsto> s), next_addr := Suc (next_addr st),
                   stimulus := Some (next_addr st)\<rparr>)"
  by (auto simp: load_sound_def split: option.splits)

lemma store_stimulus_Inr:
  "store_stimulus c st = Inr st' \<longleftrightarrow>
     (\<exists>a. stimulus st = Some a \<and> st' = st\<lparr>stimuli := (stimuli st)(c \<mapsto> a)\<rparr>)"
  by (auto simp: store_stimulus_def split: option.splits)

text \<open>
  The invariant of the loop: the store is well-formed and the library normalised. Inside
  the body, \<^verbatim>\<open>stimulus\<close> names an object that is not in the library yet.
\<close>

lemma loop_body_invariant:
  assumes p0: "0 < p0"
    and inv: "heap_ok st" "library_ok st" "library_normalized p0 st"
  shows "heap_ok (snd (exec [load_sound c, normalize_stimulus p0, store_stimulus c] st))
       \<and> library_ok (snd (exec [load_sound c, normalize_stimulus p0, store_stimulus c] st))
       \<and> library_normalized p0
           (snd (exec [load_sound c, normalize_stimulus p0, store_stimulus c] st))"
proof (cases "load_sound c st")
  case (Inl e)
  with inv show ?thesis by simp
next
  case (Inr st1)
  let ?n = "next_addr st"
  from Inr obtain s where st1: "st1 = st\<lparr>heap := (heap st)(?n \<mapsto> s), next_addr := Suc ?n,
      stimulus := Some ?n\<rparr>"
    by (auto simp: load_sound_Inr)
  have fresh: "?n \<notin> dom (heap st)"
    using inv(1) by (auto simp: heap_ok_def)
  have lib_old: "r \<noteq> ?n" if "stimuli st c' = Some r" for c' r
  proof -
    from that have "r \<in> ran (stimuli st)" by (auto simp: ran_def)
    with inv(2) have "r \<in> dom (heap st)" unfolding library_ok_def by blast
    with fresh show ?thesis by blast
  qed
  have ok1: "heap_ok st1"
    using inv(1) unfolding heap_ok_def st1 by (auto simp: less_Suc_eq)
  have lib1: "library_ok st1"
    using inv(2) unfolding library_ok_def st1 by auto
  have norm1: "library_normalized p0 st1"
    using inv(3) lib_old unfolding library_normalized_def st1 by auto
  show ?thesis
  proof (cases "normalize_stimulus p0 st1")
    case (Inl e)
    with Inr ok1 lib1 norm1 show ?thesis by simp
  next
    case n2: (Inr st2)
    then obtain s' where s': "scaleToIntensity p0 s STANDARD_INTENSITY = Inr s'"
      and st2: "st2 = st1\<lparr>heap := (heap st1)(?n \<mapsto> s')\<rparr>"
      by (auto simp: normalize_stimulus_def scale_intensity_Inr st1)
    have m: "measureIntensity p0 s' = Inr STANDARD_INTENSITY"
      by (rule scaleToIntensity_measure [OF p0 s'])
    have ok2: "heap_ok st2"
      using ok1 unfolding heap_ok_def st2 st1 by auto
    have lib2: "library_ok st2"
      using lib1 unfolding library_ok_def st2 st1 by auto
    have norm2: "library_normalized p0 st2"
      using norm1 lib_old unfolding library_normalized_def st2 st1 by auto
    show ?thesis
    proof (cases "store_stimulus c st2")
      case (Inl e)
      with Inr n2 ok2 lib2 norm2 show ?thesis by simp
    next
      case s3: (Inr st3)
      then have st3: "st3 = st2\<lparr>stimuli := (stimuli st2)(c \<mapsto> ?n)\<rparr>"
        by (auto simp: store_stimulus_Inr st2 st1)
      have ok3: "heap_ok st3"
        using ok2 unfolding heap_ok_def st3 by simp
      have lib3: "library_ok st3"
        unfolding library_ok_def
      proof
        fix r assume "r \<in> ran (stimuli st3)"
        then have "r = ?n \<or> r \<in> ran (stimuli st2)"
          unfolding st3 by (auto simp: ran_def split: if_splits)
        with lib2 show "r \<in> dom (heap st3)"
          unfolding library_ok_def st3 st2 st1 by auto
      qed
      have norm3: "library_normalized p0 st3"
        using norm2 m unfolding library_normalized_def st3 st2 st1
        by (auto split: if_splits)
      from Inr n2 s3 ok3 lib3 norm3 show ?thesis by simp
    qed
  qed
qed

lemma for_conditions_invariant:
  assumes "0 < p0" and "heap_ok st" "library_ok st" "library_normalized p0 st"
  shows "heap_ok (snd (for_conditions p0 cs st))
       \<and> library_ok (snd (for_conditions p0 cs st))
       \<and> library_normalized p0 (snd (for_conditions p0 cs st))"
  using assms(2-4)
proof (induction cs arbitrary: st)
  case Nil
  then show ?case by simp
next
  case (Cons c cs)
  let ?body = "exec [load_sound c, normalize_stimulus p0, store_stimulus c] st"
  obtain e st1 where body: "?body = (e, st1)"
    by (cases ?body)
  from loop_body_invariant [OF assms(1) Cons.prems, of c]
  have inv1: "heap_ok st1" "library_ok st1" "library_normalized p0 st1"
    unfolding body by simp_all
  show ?case
  proof (cases e)
    case None
    then have "for_conditions p0 (c # cs) st = for_conditions p0 cs st1"
      unfolding for_conditions.simps body by simp
    with Cons.IH [OF inv1] show ?thesis by simp
  next
    case (Some err)
    then have "for_conditions p0 (c # cs) st = (Some err, st1)"
      unfolding for_conditions.simps body by simp
    with inv1 show ?thesis by simp
  qed
qed

text \<open>
  After Begin Experiment the store is well-formed and every recording in the library
  measures \<open>STANDARD_INTENSITY\<close>: each trial starts from such a state.
\<close>

lemma begin_experiment_establishes:
  assumes "0 < p0" and "heap_ok st"
  shows "heap_ok (snd (begin_experiment p0 st))
       \<and> library_ok (snd (begin_experiment p0 st))
       \<and> library_normalized p0 (snd (begin_experiment p0 st))"
proof -
  let ?st0 = "st\<lparr>conditions := [''a'', ''e''],
      stimulus_files := [''a'' \<mapsto> ''audio/bat.wav'', ''e'' \<mapsto> ''audio/bet.wav''],
      stimuli := Map.empty\<rparr>"
  have "heap_ok ?st0" "library_ok ?st0" "library_normalized p0 ?st0"
    using assms(2) by (simp_all add: heap_ok_def library_ok_def library_normalized_def)
  from for_conditions_invariant [OF assms(1) this, of "conditions ?st0"]
  show ?thesis
    by (simp add: begin_experiment_def Let_def)
qed


end
